theory Spec2Isabelle
  imports Main "HOL-Library.AList"
begin

section \<open>The action registry (yep/actions/actions.go)\<close>

text \<open>
  Go strings are byte sequences, so they are \<^typ>\<open>string\<close> here. A run-time panic of
  the Go program is a value of \<open>panic\<close>; a function that can panic returns
  \<open>panic + 'a\<close> with \<open>Inl\<close> for the panic.
\<close>

datatype panic =
    NilPointerDereference
  | IndexOutOfRange nat nat
  | MakeSliceLenOutOfRange
  | ElemOfInvalidType

text \<open>
  \<open>BaseAction\<close>: the fields of the Go struct that hold plain strings, numbers and
  booleans. The fields of the types \<open>views.ViewRef\<close>, \<open>[]views.ViewTuple\<close> and
  \<open>*types.Context\<close> belong to other packages and are read by no function of this file.
\<close>

record BaseAction =
  ID :: string
  Type :: string
  Name :: string
  Model :: string
  ResID :: int
  Groups :: "string list"
  Domain :: string
  Help :: string
  SrcModel :: string
  Usage :: string
  AutoRefresh :: bool
  ManualSearch :: bool
  ActViewType :: string
  ViewMode :: string
  ViewIds :: "string list"
  Multi :: bool
  Target :: string
  AutoSearch :: bool
  Filter :: bool
  Limit :: int

text \<open>
  \<open>Collection\<close> embeds a \<open>sync.RWMutex\<close> and holds the table \<open>actions\<close>. The table is a
  Go map from ids to non-nil pointers, made by \<open>NewActionsCollection\<close>: \<open>Add\<close>
  dereferences its argument before it stores it.
  The methods of the collection return, beside their result, the list of the operations they
  perform on the mutex and on the table, in program order: \<open>Lock\<close>, \<open>Unlock\<close>, \<open>RLock\<close>,
  \<open>RUnlock\<close> are the calls on the embedded mutex, \<open>TableRead\<close> and \<open>TableWrite\<close> the
  accesses to \<open>ar.actions\<close>.
\<close>

datatype access = Lock | Unlock | RLock | RUnlock | TableRead string | TableWrite string

record Collection =
  actions :: "string \<rightharpoonup> BaseAction"

definition NewActionsCollection :: Collection where
  "NewActionsCollection = \<lparr>actions = Map.empty\<rparr>"

text \<open>\<open>Add\<close>: \<open>ar.Lock(); defer ar.Unlock(); ar.actions[a.ID] = a\<close>.\<close>

definition Add :: "Collection \<Rightarrow> BaseAction \<Rightarrow> access list \<times> Collection" where
  "Add ar a =
     ([Lock, TableWrite (ID a), Unlock], ar\<lparr>actions := (actions ar)(ID a \<mapsto> a)\<rparr>)"

text \<open>\<open>GetById\<close>: \<open>return ar.actions[id]\<close>; \<open>None\<close> is the nil pointer.\<close>

definition GetById :: "Collection \<Rightarrow> string \<Rightarrow> access list \<times> BaseAction option" where
  "GetById ar k = ([TableRead k], actions ar k)"

text \<open>
  What the mutex is held as while a list of operations runs, starting from a given holding:
  an access to the table is guarded when it happens between \<open>Lock\<close> and \<open>Unlock\<close>, or,
  for a read, between \<open>RLock\<close> and \<open>RUnlock\<close>.
\<close>

datatype holding = Free | Shared | Exclusive

fun guarded :: "holding \<Rightarrow> access list \<Rightarrow> bool" where
  "guarded h [] = True"
| "guarded h (Lock # es) = guarded Exclusive es"
| "guarded h (Unlock # es) = guarded Free es"
| "guarded h (RLock # es) = guarded Shared es"
| "guarded h (RUnlock # es) = guarded Free es"
| "guarded h (TableRead k # es) = (h \<noteq> Free \<and> guarded h es)"
| "guarded h (TableWrite k # es) = (h = Exclusive \<and> guarded h es)"

text \<open>\<open>ActionRef\<close> is \<open>[2]string\<close>: the id, then the name.\<close>

type_synonym ActionRef = "string \<times> string"

definition emptyActionRef :: ActionRef where
  "emptyActionRef = ('''', '''')"

text \<open>
  \<open>MakeActionRef\<close> reads the global \<open>Registry\<close>, a \<open>*Collection\<close>: \<open>None\<close> is the nil
  pointer, on which \<open>GetById\<close> panics when it reads the field \<open>actions\<close>.
\<close>

definition MakeActionRef :: "Collection option \<Rightarrow> string \<Rightarrow> panic + ActionRef" where
  "MakeActionRef Registry k =
     (case Registry of
        None \<Rightarrow> Inl NilPointerDereference
      | Some reg \<Rightarrow>
          (case snd (GetById reg k) of
             None \<Rightarrow> Inr emptyActionRef
           | Some action \<Rightarrow> Inr (k, Name action)))"

text \<open>
  The values of \<open>encoding/json\<close> that \<open>MarshalJSON\<close> produces: \<open>json.Marshal(nil)\<close> is
  \<open>null\<close>, \<open>json.Marshal([2]string{a, b})\<close> is the array of the two strings.
\<close>

datatype json = JNull | JString string | JArray "json list"

definition MarshalJSON :: "ActionRef \<Rightarrow> json" where
  "MarshalJSON ar =
     (if fst ar = '''' then JNull else JArray [JString (fst ar), JString (snd ar)])"

text \<open>\<open>Value\<close> gives the id for the database.\<close>

definition Value :: "ActionRef \<Rightarrow> string" where
  "Value ar = fst ar"

text \<open>
  The dynamic type of the \<open>interface{}\<close> argument of \<open>Scan\<close>: the two types the type
  switch knows, and the others a database driver hands over. \<open>SrcOther\<close> carries the type's
  name as \<open>%T\<close> prints it.
\<close>

datatype scan_src =
    SrcString string
  | SrcBytes string
  | SrcInt64 int
  | SrcBool bool
  | SrcNil
  | SrcOther string

fun typeName :: "scan_src \<Rightarrow> string" where
  "typeName (SrcString s) = ''string''"
| "typeName (SrcBytes s) = ''[]uint8''"
| "typeName (SrcInt64 i) = ''int64''"
| "typeName (SrcBool b) = ''bool''"
| "typeName SrcNil = ''<nil>''"
| "typeName (SrcOther t) = t"

text \<open>
  \<open>Scan\<close> has a pointer receiver: the model takes the \<open>ActionRef\<close> it points to and
  returns the one it points to afterwards, with the returned \<open>error\<close> (\<open>None\<close> is nil,
  \<open>Some\<close> the error's message).
\<close>

fun Scan :: "Collection option \<Rightarrow> ActionRef \<Rightarrow> scan_src \<Rightarrow> panic + (ActionRef \<times> string option)" where
  "Scan Registry ar (SrcString s) =
     (case MakeActionRef Registry s of Inl p \<Rightarrow> Inl p | Inr r \<Rightarrow> Inr (r, None))"
| "Scan Registry ar (SrcBytes s) =
     (case MakeActionRef Registry s of Inl p \<Rightarrow> Inl p | Inr r \<Rightarrow> Inr (r, None))"
| "Scan Registry ar src =
     Inr (ar, Some (''Invalid type for ActionRef: '' @ typeName src))"

text \<open>What the type switch of \<open>Scan\<close> accepts, and the string it reads there.\<close>

fun asString :: "scan_src \<Rightarrow> string option" where
  "asString (SrcString s) = Some s"
| "asString (SrcBytes s) = Some s"
| "asString src = None"

section \<open>The pool generator (yep/models/generate.go)\<close>

subsection \<open>Reflected types\<close>

text \<open>
  A \<open>reflect.Type\<close>, as far as the generator looks at it. \<open>Named p s\<close> is a type of a
  kind other than \<open>reflect.Ptr\<close> whose \<open>PkgPath()\<close> is \<open>p\<close> and whose \<open>String()\<close> is \<open>s\<close>
  (a predeclared type such as \<open>int\<close> or an unnamed composite type has the empty package
  path). The types of kind \<open>reflect.Ptr\<close> are \<open>Ptr t\<close>, the unnamed pointer type \<open>*t\<close>, and
  \<open>NamedPtr p s t\<close>, a defined type such as \<open>type TimePtr *time.Time\<close>, declared in the
  package \<open>p\<close> and printed as \<open>s\<close>, whose element type is \<open>t\<close>. \<open>Slice t\<close> is the unnamed
  slice type \<open>[]t\<close>, the type of the last parameter of a variadic function. Two reflected
  types are the same type when they are equal here.
\<close>

datatype rtype = Named string string | NamedPtr string string rtype | Ptr rtype | Slice rtype

fun String :: "rtype \<Rightarrow> string" where
  "String (Named p s) = s"
| "String (NamedPtr p s t) = s"
| "String (Ptr t) = ''*'' @ String t"
| "String (Slice t) = ''[]'' @ String t"

fun PkgPath :: "rtype \<Rightarrow> string" where
  "PkgPath (Named p s) = p"
| "PkgPath (NamedPtr p s t) = p"
| "PkgPath (Ptr t) = ''''"
| "PkgPath (Slice t) = ''''"

text \<open>\<open>typ.Kind() == reflect.Ptr\<close>.\<close>

fun isPtrKind :: "rtype \<Rightarrow> bool" where
  "isPtrKind (Ptr t) = True"
| "isPtrKind (NamedPtr p s t) = True"
| "isPtrKind (Named p s) = False"
| "isPtrKind (Slice t) = False"

text \<open>
  \<open>Elem\<close> gives the element type of a pointer or slice type. The generator calls it on
  types of kind \<open>reflect.Ptr\<close> and on the last parameter of a variadic function; on a type
  that has no element type it panics.
\<close>

fun Elem :: "rtype \<Rightarrow> panic + rtype" where
  "Elem (Ptr t) = Inr t"
| "Elem (NamedPtr p s t) = Inr t"
| "Elem (Slice t) = Inr t"
| "Elem (Named p s) = Inl ElemOfInvalidType"

text \<open>
  \<open>reflect.TypeOf(RecordCollection{})\<close>: the struct \<open>RecordCollection\<close> of this package,
  which the tests import as \<open>github.com/npiganeau/yep/yep/models\<close>.
\<close>

definition RecordCollection :: rtype where
  "RecordCollection = Named ''github.com/npiganeau/yep/yep/models'' ''models.RecordCollection''"

subsection \<open>Strings\<close>

text \<open>
  \<open>strings.Replace(s, old, new, 1)\<close>: the first occurrence of \<open>old\<close> in \<open>s\<close> is replaced.
\<close>

fun Replace1 :: "string \<Rightarrow> string \<Rightarrow> string \<Rightarrow> string" where
  "Replace1 [] old new = (if old = [] then new else [])"
| "Replace1 (c # cs) old new =
     (if take (length old) (c # cs) = old then new @ drop (length old) (c # cs)
      else c # Replace1 cs old new)"

text \<open>\<open>strings.Join(elems, sep)\<close>.\<close>

fun Join :: "string list \<Rightarrow> string \<Rightarrow> string" where
  "Join [] sep = ''''"
| "Join [x] sep = x"
| "Join (x # y # r) sep = x @ sep @ Join (y # r) sep"

subsection \<open>The registry's descriptors and the generator's data\<close>

text \<open>
  The types \<open>fieldInfo\<close>, \<open>methodInfo\<close>, \<open>modelInfo\<close> and the global \<open>modelRegistry\<close> are
  declared in files of the package that are not part of the files covered here; the records below
  hold what \<open>generate.go\<close> reads of them. \<open>isRelationField\<close> is the result of the method
  \<open>fi.isRelationField()\<close>, \<open>structField_Type\<close> is \<open>fi.structField.Type\<close>. A Go map the
  generator ranges over (\<open>mi.fields.registryByName\<close>, \<open>mi.methods.registry\<close>,
  \<open>modelRegistry.registryByName\<close>) is the list of its entries in the order the \<open>range\<close>
  statement visits them, whatever that order is. A \<open>*modelInfo\<close> in a list of mixins is
  the model's name, the only field read of it.
\<close>

record fieldInfo =
  isRelationField :: bool
  relatedModelName :: string
  structField_Type :: rtype

text \<open>
  A \<open>reflect.Type\<close> of kind \<open>Func\<close>: \<open>ins\<close> are the types \<open>In(0)\<close>, \<open>In(1)\<close>, ...
  (\<open>In(0)\<close> is the receiver), \<open>outs\<close> the types \<open>Out(0)\<close>, ...
\<close>

record funcType =
  ins :: "rtype list"
  outs :: "rtype list"
  IsVariadic :: bool

definition NumIn :: "funcType \<Rightarrow> nat" where
  "NumIn t = length (ins t)"

definition NumOut :: "funcType \<Rightarrow> nat" where
  "NumOut t = length (outs t)"

record methodInfo =
  methodType :: funcType
  doc :: string

record modelInfo =
  name :: string
  fields_registryByName :: "(string \<times> fieldInfo) list"
  methods_registry :: "(string \<times> methodInfo) list"
  mixins :: "string list"

record modelCollection =
  registryByName :: "(string \<times> modelInfo) list"
  commonMixins :: "string list"

text \<open>
  \<open>generate.MethodRef{Model: ..., Method: ...}\<close>, the key of the map \<open>astData\<close>, is the
  pair of a model name and a method name.
\<close>

type_synonym MethodRef = "string \<times> string"

text \<open>
  Modelled from the spec: the struct \<open>generate.MethodASTData\<close>, which is declared in the
  package \<open>tools/generate\<close>, which is not covered here. The generator reads its field
  \<open>Params\<close>; the spec gives the value of the map as "ordered parameter name list, doc
  string". A missing key of a Go map gives the zero value.
\<close>

record MethodASTData =
  Params :: "string list"
  Doc :: string

definition zeroMethodASTData :: MethodASTData where
  "zeroMethodASTData = \<lparr>MethodASTData.Params = [], MethodASTData.Doc = ''''\<rparr>"

type_synonym astData = "MethodRef \<rightharpoonup> MethodASTData"

text \<open>The three structs that the template is fed with.\<close>

record fieldData =
  Name :: string
  Type :: string
  TypeIsRS :: bool

record methodData =
  Name :: string
  Doc :: string
  Params :: string
  ParamsWithType :: string
  Returns :: string
  ReturnsIsRS :: bool

record modelData =
  Name :: string
  Deps :: "string list"
  Fields :: "fieldData list"
  Methods :: "methodData list"

text \<open>\<open>map[string]bool\<close>: a missing key reads as \<open>false\<close>.\<close>

type_synonym depsMap = "string \<Rightarrow> bool"

definition specificMethods :: "string \<Rightarrow> bool" where
  "specificMethods n = (n = ''Create'' \<or> n = ''First'' \<or> n = ''All'')"

subsection \<open>Type names and dependencies\<close>

definition sanitizedFieldType :: "modelInfo \<Rightarrow> rtype \<Rightarrow> string \<times> bool" where
  "sanitizedFieldType mi typ =
     (let isRC = (typ = RecordCollection);
          typStr = (if isRC then name mi @ ''Set'' else String typ)
      in (Replace1 typStr ''pool.'' '''', isRC))"

text \<open>
  The loop \<open>for typ.Kind() == reflect.Ptr { typ = typ.Elem() }\<close>: every layer of kind
  \<open>reflect.Ptr\<close>, named or not, is replaced by its element type.
\<close>

fun stripPtr :: "rtype \<Rightarrow> rtype" where
  "stripPtr (Ptr t) = stripPtr t"
| "stripPtr (NamedPtr p s t) = stripPtr t"
| "stripPtr (Named p s) = Named p s"
| "stripPtr (Slice t) = Slice t"

definition addDependency :: "modelData \<Rightarrow> rtype \<Rightarrow> depsMap \<Rightarrow> modelData \<times> depsMap" where
  "addDependency data typ deps =
     (let fDep = PkgPath (stripPtr typ);
          data' = (if fDep \<noteq> '''' \<and> \<not> deps fDep
                   then data\<lparr>Deps := Deps data @ [fDep]\<rparr> else data)
      in (data', deps(fDep := True)))"

subsection \<open>Fields\<close>

text \<open>One round of the loop of \<open>addFieldsToModelData\<close>, then the loop.\<close>

definition addField ::
  "modelInfo \<Rightarrow> string \<times> fieldInfo \<Rightarrow> modelData \<times> depsMap \<Rightarrow> modelData \<times> depsMap" where
  "addField mi entry st =
     (case entry of (fieldName, fi) \<Rightarrow> case st of (mData, deps) \<Rightarrow>
        (let (typStr, typIsRS) =
               (if isRelationField fi then (relatedModelName fi @ ''Set'', True)
                else (fst (sanitizedFieldType mi (structField_Type fi)), False));
             mData' = mData\<lparr>Fields := Fields mData @
                        [\<lparr>fieldData.Name = fieldName, fieldData.Type = typStr,
                          TypeIsRS = typIsRS\<rparr>]\<rparr>
         in addDependency mData' (structField_Type fi) deps))"

definition addFieldsToModelData ::
  "modelData \<Rightarrow> modelInfo \<Rightarrow> depsMap \<Rightarrow> modelData \<times> depsMap" where
  "addFieldsToModelData mData mi deps =
     fold (addField mi) (fields_registryByName mi) (mData, deps)"

subsection \<open>Methods\<close>

text \<open>
  The search of the mixins, \<open>for i := len(allMixIns) - 1; i >= 0; i--\<close>: the last argument
  is \<open>i + 1\<close>; \<open>None\<close> is \<open>mixInMethFound = false\<close>.
\<close>

fun mixInLoop :: "astData \<Rightarrow> string list \<Rightarrow> string \<Rightarrow> nat \<Rightarrow> MethodASTData option" where
  "mixInLoop astData allMixIns methodName 0 = None"
| "mixInLoop astData allMixIns methodName (Suc i) =
     (case astData (allMixIns ! i, methodName) of
        Some dParams \<Rightarrow> Some dParams
      | None \<Rightarrow> mixInLoop astData allMixIns methodName i)"

text \<open>Lines 157 to 176: the value of \<open>dParams\<close> for a method of a model.\<close>

definition lookupParams ::
  "modelCollection \<Rightarrow> modelInfo \<Rightarrow> astData \<Rightarrow> string \<Rightarrow> MethodASTData" where
  "lookupParams modelRegistry mi astData methodName =
     (case astData (name mi, methodName) of
        Some dParams \<Rightarrow> dParams
      | None \<Rightarrow>
          (let allMixIns = commonMixins modelRegistry @ mixins mi in
           case mixInLoop astData allMixIns methodName (length allMixIns) of
             Some dParams \<Rightarrow> dParams
           | None \<Rightarrow>
               (case astData ('''', methodName) of
                  Some dParams \<Rightarrow> dParams
                | None \<Rightarrow> zeroMethodASTData)))"

text \<open>
  The state of the parameter loop: the slices \<open>params\<close> and \<open>paramsType\<close>, the model data
  and the map of the paths already imported. One round for the index \<open>i\<close>: the type's name
  first, then \<open>dParams.Params[i]\<close>, which panics when the list of names is too short, then
  the dependency. In a round \<open>i < NumIn() - 1\<close>, so \<open>NumIn() - 2\<close> is not negative.
\<close>

type_synonym paramState = "string list \<times> string list \<times> modelData \<times> depsMap"

text \<open>Lines 185 to 190: the name of the type of the parameter \<open>i\<close>, and \<open>isRC\<close>.\<close>

definition paramType :: "modelInfo \<Rightarrow> funcType \<Rightarrow> nat \<Rightarrow> panic + (string \<times> bool)" where
  "paramType mi methType i =
     (if IsVariadic methType \<and> i = NumIn methType - 2
      then (case Elem (ins methType ! (i + 1)) of
              Inl p \<Rightarrow> Inl p
            | Inr e \<Rightarrow>
                (let (varArgType, isRC) = sanitizedFieldType mi e
                 in Inr (''...'' @ varArgType, isRC)))
      else Inr (sanitizedFieldType mi (ins methType ! (i + 1))))"

definition paramRound ::
  "modelInfo \<Rightarrow> funcType \<Rightarrow> MethodASTData \<Rightarrow> nat \<Rightarrow> paramState \<Rightarrow> panic + paramState" where
  "paramRound mi methType dParams i st =
     (case st of (params, paramsType, mData, deps) \<Rightarrow>
        (case paramType mi methType i of
           Inl p \<Rightarrow> Inl p
         | Inr (pType, isRC) \<Rightarrow>
             (if i < length (MethodASTData.Params dParams) then
                (let pName = MethodASTData.Params dParams ! i;
                     paramsType' = paramsType[i := pName @ '' '' @ pType];
                     params' = params[i := (if isRC then pName @ ''.RecordCollection''
                                            else pName)];
                     (mData', deps') = addDependency mData (ins methType ! (i + 1)) deps
                 in Inr (params', paramsType', mData', deps'))
              else Inl (IndexOutOfRange i (length (MethodASTData.Params dParams))))))"

fun paramsLoop ::
  "modelInfo \<Rightarrow> funcType \<Rightarrow> MethodASTData \<Rightarrow> nat list \<Rightarrow> paramState \<Rightarrow> panic + paramState" where
  "paramsLoop mi methType dParams [] st = Inr st"
| "paramsLoop mi methType dParams (i # is) st =
     (case paramRound mi methType dParams i st of
        Inl p \<Rightarrow> Inl p
      | Inr st' \<Rightarrow> paramsLoop mi methType dParams is st')"

text \<open>
  Lines 177 to 216: the wrapper of a method whose names are \<open>dParams\<close>.
  \<open>make([]string, NumIn() - 1)\<close> panics on a function type without parameters; it gives
  a slice of empty strings otherwise.
\<close>

definition wrapMethod ::
  "modelInfo \<Rightarrow> string \<Rightarrow> methodInfo \<Rightarrow> MethodASTData \<Rightarrow>
     modelData \<times> depsMap \<Rightarrow> panic + (modelData \<times> depsMap)" where
  "wrapMethod mi methodName methInfo dParams st =
     (case st of (mData, deps) \<Rightarrow>
        (let methType = methodType methInfo
         in if NumIn methType = 0 then Inl MakeSliceLenOutOfRange
            else
              (case paramsLoop mi methType dParams [0..<NumIn methType - 1]
                      (replicate (NumIn methType - 1) '''',
                       replicate (NumIn methType - 1) '''', mData, deps) of
                 Inl p \<Rightarrow> Inl p
               | Inr (params, paramsType, mData1, deps1) \<Rightarrow>
                   (let (returns, returnsIsRS, mData2, deps2) =
                          (if NumOut methType > 0 then
                             (let (r, b) = sanitizedFieldType mi (outs methType ! 0);
                                  (d, dp) = addDependency mData1 (outs methType ! 0) deps1
                              in (r, b, d, dp))
                           else ('''', False, mData1, deps1));
                        methData = \<lparr>methodData.Name = methodName,
                                    methodData.Doc = doc methInfo,
                                    methodData.Params = Join params '', '',
                                    ParamsWithType = Join paramsType '', '',
                                    Returns = returns,
                                    ReturnsIsRS = returnsIsRS\<rparr>
                    in Inr (mData2\<lparr>Methods := Methods mData2 @ [methData]\<rparr>, deps2)))))"

text \<open>One round of the loop of \<open>addMethodsToModelData\<close>, then the loop.\<close>

definition addMethod ::
  "modelCollection \<Rightarrow> modelInfo \<Rightarrow> astData \<Rightarrow> string \<times> methodInfo \<Rightarrow>
     modelData \<times> depsMap \<Rightarrow> panic + (modelData \<times> depsMap)" where
  "addMethod modelRegistry mi astData entry st =
     (case entry of (methodName, methInfo) \<Rightarrow>
        if specificMethods methodName then Inr st
        else wrapMethod mi methodName methInfo
               (lookupParams modelRegistry mi astData methodName) st)"

fun addMethodsLoop ::
  "modelCollection \<Rightarrow> modelInfo \<Rightarrow> astData \<Rightarrow> (string \<times> methodInfo) list \<Rightarrow>
     modelData \<times> depsMap \<Rightarrow> panic + (modelData \<times> depsMap)" where
  "addMethodsLoop modelRegistry mi astData [] st = Inr st"
| "addMethodsLoop modelRegistry mi astData (entry # rest) st =
     (case addMethod modelRegistry mi astData entry st of
        Inl p \<Rightarrow> Inl p
      | Inr st' \<Rightarrow> addMethodsLoop modelRegistry mi astData rest st')"

definition addMethodsToModelData ::
  "modelCollection \<Rightarrow> modelData \<Rightarrow> modelInfo \<Rightarrow> astData \<Rightarrow> depsMap \<Rightarrow>
     panic + (modelData \<times> depsMap)" where
  "addMethodsToModelData modelRegistry mData mi astData deps =
     addMethodsLoop modelRegistry mi astData (methods_registry mi) (mData, deps)"

subsection \<open>Files\<close>

text \<open>
  \<open>generateModelPoolFile\<close> builds the model data and hands it, with the file name, to
  \<open>generate.CreateFileFromTemplate\<close>, which renders the template into that file: the
  result is the file written, as its name and the data rendered into it, or the panic that
  ended the function before the file was created. The constants \<open>generate.PoolPath\<close> and
  \<open>generate.ModelsPath\<close> are declared in the package \<open>tools/generate\<close>, which is not
  covered here, and are parameters.
\<close>

definition generateModelPoolFile ::
  "string \<Rightarrow> string \<Rightarrow> modelCollection \<Rightarrow> modelInfo \<Rightarrow> string \<Rightarrow> astData \<Rightarrow>
     panic + (string \<times> modelData)" where
  "generateModelPoolFile PoolPath ModelsPath modelRegistry mi fileName astData =
     (let deps = (\<lambda>p. False)(PoolPath := True);
          mData = \<lparr>modelData.Name = name mi, Deps = [ModelsPath], Fields = [], Methods = []\<rparr>;
          (mData1, deps1) = addFieldsToModelData mData mi deps
      in case addMethodsToModelData modelRegistry mData1 mi astData deps1 of
           Inl p \<Rightarrow> Inl p
         | Inr (mData2, deps2) \<Rightarrow> Inr (fileName, mData2))"

text \<open>
  The loop of \<open>GeneratePool\<close> over the registry: the files written so far, and the panic
  that ended the run, if any. \<open>toLower\<close> is \<open>strings.ToLower\<close> and \<open>pathJoin\<close> is
  \<open>path.Join\<close>, functions of the standard library.
\<close>

fun generateLoop ::
  "(string \<Rightarrow> string) \<Rightarrow> (string \<Rightarrow> string \<Rightarrow> string) \<Rightarrow> string \<Rightarrow> string \<Rightarrow>
     modelCollection \<Rightarrow> string \<Rightarrow> astData \<Rightarrow>
     (string \<times> modelInfo) list \<Rightarrow> (string \<times> modelData) list \<Rightarrow>
     (string \<times> modelData) list \<times> panic option" where
  "generateLoop toLower pathJoin PoolPath ModelsPath modelRegistry dir astData [] files =
     (files, None)"
| "generateLoop toLower pathJoin PoolPath ModelsPath modelRegistry dir astData
     ((modelName, mi) # rest) files =
     (let fileName = toLower modelName @ ''.go'' in
      case generateModelPoolFile PoolPath ModelsPath modelRegistry mi
             (pathJoin dir fileName) astData of
        Inl p \<Rightarrow> (files, Some p)
      | Inr file \<Rightarrow>
          generateLoop toLower pathJoin PoolPath ModelsPath modelRegistry dir astData rest
            (files @ [file]))"

text \<open>
  \<open>GeneratePool\<close>: the four calls that simulate the bootstrap (\<open>createModelLinks\<close>,
  \<open>inflateMixIns\<close>, \<open>inflateEmbeddings\<close>, \<open>generateMethodsDoc\<close>) work on the global
  registry and are defined in other files of the package; \<open>bootstrap\<close> is their effect on
  the registry. Then the loop over the models of the registry.
\<close>

definition GeneratePool ::
  "(modelCollection \<Rightarrow> panic + modelCollection) \<Rightarrow> (string \<Rightarrow> string) \<Rightarrow>
     (string \<Rightarrow> string \<Rightarrow> string) \<Rightarrow> string \<Rightarrow> string \<Rightarrow> modelCollection \<Rightarrow> string \<Rightarrow>
     astData \<Rightarrow> (string \<times> modelData) list \<times> panic option" where
  "GeneratePool bootstrap toLower pathJoin PoolPath ModelsPath modelRegistry dir astData =
     (case bootstrap modelRegistry of
        Inl p \<Rightarrow> ([], Some p)
      | Inr reg \<Rightarrow>
          generateLoop toLower pathJoin PoolPath ModelsPath reg dir astData
            (registryByName reg) [])"

subsection \<open>Notions for the statements about dependencies and parameter names\<close>

text \<open>
  The types that the generation of a model hands to \<open>addDependency\<close>, in program order:
  the type of every field, then for every method that gets a wrapper the types \<open>In(1)\<close>,
  \<open>In(2)\<close>, ... of its parameters and, if it returns something, \<open>Out(0)\<close>.
\<close>

definition wrappedTypes :: "methodInfo \<Rightarrow> rtype list" where
  "wrappedTypes m = tl (ins (methodType m)) @ take 1 (outs (methodType m))"

definition typesSeen :: "modelInfo \<Rightarrow> rtype list" where
  "typesSeen mi =
     map (\<lambda>e. structField_Type (snd e)) (fields_registryByName mi) @
     concat (map (\<lambda>e. if specificMethods (fst e) then [] else wrappedTypes (snd e))
               (methods_registry mi))"

text \<open>What \<open>addDependency\<close> does to the list \<open>Deps\<close> and to the map, for a package path.\<close>

definition notePath :: "string \<Rightarrow> string list \<times> depsMap \<Rightarrow> string list \<times> depsMap" where
  "notePath p s =
     (if p \<noteq> '''' \<and> \<not> snd s p then fst s @ [p] else fst s, (snd s)(p := True))"

text \<open>
  What \<open>reflect\<close> guarantees of the type of a method: it has a receiver, and the last
  parameter of a variadic function is a slice.
\<close>

definition wellFormedFunc :: "funcType \<Rightarrow> bool" where
  "wellFormedFunc t =
     (ins t \<noteq> [] \<and>
      (if IsVariadic t then (case last (ins t) of Slice e \<Rightarrow> True | _ \<Rightarrow> False) else True))"

section \<open>The bootstrap simulation\<close>

text \<open>
  \<open>GeneratePool\<close> calls \<open>createModelLinks\<close>, \<open>inflateMixIns\<close> and \<open>inflateEmbeddings\<close>;
  their code, and the declarations of the registry they work on, are in files of the
  package that are not covered here. This section models them from the
  specification (its sections 3, 4.1 and 5).
\<close>

text \<open>
  Modelled from the spec: the "relation cardinality class" of a field descriptor, whose Go
  declaration is missing: "single-related vs. multi-related".
\<close>

datatype cardinality = SingleRelated | MultiRelated

text \<open>
  Modelled from the spec: the field descriptor, whose Go declaration is missing. "Name,
  declared value type, a boolean is-relation flag, and if relational, the target model name
  and relation cardinality class"; the name is the key under which a model holds the
  descriptor. \<open>fieldOrigin\<close> is the mark that embedding inflation puts on a copied member
  (the embedded model's name; empty on every other member).
\<close>

record fieldDescriptor =
  declaredType :: rtype
  isRelation :: bool
  targetModel :: string
  relationClass :: cardinality
  fieldOrigin :: string

text \<open>
  Modelled from the spec: the method descriptor, whose Go declaration is missing.
  "Reflected function signature, associated human-readable documentation, and ordered
  parameter names"; \<open>methodOrigin\<close> as for fields.
\<close>

record methodDescriptor =
  signature :: funcType
  documentation :: string
  parameterNames :: "string list"
  methodOrigin :: string

text \<open>
  Modelled from the spec: the model descriptor, whose Go declaration is missing. The static
  declaration of a model is its name, its name-keyed fields and methods in declaration
  order, the list of the mixins applied to it and the list of the models it embeds; the
  composed descriptor is the field and method set that inflation builds and the generator
  reads. The registry holds the descriptors by model name, each name once.
\<close>

record modelDescriptor =
  modelName :: string
  declaredFields :: "(string \<times> fieldDescriptor) list"
  declaredMethods :: "(string \<times> methodDescriptor) list"
  mixinNames :: "string list"
  embeddedNames :: "string list"
  composedFields :: "(string \<times> fieldDescriptor) list"
  composedMethods :: "(string \<times> methodDescriptor) list"

type_synonym registry = "(string \<times> modelDescriptor) list"
















text \<open>
  Modelled from the spec: the "static declarations" of a registry, every descriptor without
  its composed sets.
\<close>

definition declarations :: "registry \<Rightarrow> registry" where
  "declarations r = map (\<lambda>e. (fst e, (snd e)\<lparr>composedFields := [], composedMethods := []\<rparr>)) r"

text \<open>
  Modelled from the spec: the composed sets are "name-keyed", each name once. This is the
  property of a registry that every composed set of every model has it; the registry built
  from the static declarations, whose composed sets are empty, has it.
\<close>

definition nameKeyed :: "registry \<Rightarrow> bool" where
  "nameKeyed r =
     list_all (\<lambda>e. distinct (map fst (composedFields (snd e)))
                  \<and> distinct (map fst (composedMethods (snd e)))) r"


section \<open>Example inputs\<close>

text \<open>The action of the scenario: id \<open>a1\<close>, name \<open>My Action\<close>.\<close>

definition myAction :: BaseAction where
  "myAction =
     \<lparr>ID = ''a1'', BaseAction.Type = ''ir.actions.act_window'',
      BaseAction.Name = ''My Action'', Model = '''', ResID = 0, Groups = [], Domain = '''',
      Help = '''', SrcModel = '''', Usage = '''', AutoRefresh = False, ManualSearch = False,
      ActViewType = ''form'', ViewMode = '''', ViewIds = [], Multi = False, Target = '''',
      AutoSearch = False, Filter = False, Limit = 0\<rparr>"

text \<open>
  The import paths of the generated package and of the package \<open>models\<close>, as the tests
  import them, for the constants \<open>generate.PoolPath\<close> and \<open>generate.ModelsPath\<close>.
\<close>

definition exPoolPath :: string where
  "exPoolPath = ''github.com/npiganeau/yep/pool''"

definition exModelsPath :: string where
  "exModelsPath = ''github.com/npiganeau/yep/yep/models''"

text \<open>
  A model \<open>User\<close>: a string field, a relation field whose type comes from the generated
  package, a relation field of the type \<open>RecordCollection\<close>; a method \<open>Greet\<close> with two
  parameters after the receiver that returns a \<open>RecordCollection\<close>, and the method
  \<open>Create\<close>.
\<close>

definition exGreet :: methodInfo where
  "exGreet =
     \<lparr>methodType = \<lparr>ins = [Named exPoolPath ''pool.UserSet'', Named '''' ''string'',
                          Ptr (Named ''time'' ''time.Time'')],
                   outs = [RecordCollection], IsVariadic = False\<rparr>,
      doc = ''// Greet greets''\<rparr>"

definition exUser :: modelInfo where
  "exUser =
     \<lparr>name = ''User'',
      fields_registryByName =
        [(''UserName'', \<lparr>isRelationField = False, relatedModelName = '''',
                         structField_Type = Named '''' ''string''\<rparr>),
         (''Profile'', \<lparr>isRelationField = True, relatedModelName = ''Profile'',
                        structField_Type = Named exPoolPath ''pool.ProfileSet''\<rparr>),
         (''Posts'', \<lparr>isRelationField = True, relatedModelName = ''Post'',
                      structField_Type = RecordCollection\<rparr>)],
      methods_registry =
        [(''Greet'', exGreet),
         (''Create'', \<lparr>methodType = \<lparr>ins = [RecordCollection,
                                                Ptr (Named exPoolPath ''pool.User'')],
                                         outs = [RecordCollection], IsVariadic = False\<rparr>,
                       doc = ''''\<rparr>)],
      mixins = [''Audit'', ''Mail'']\<rparr>"

definition exRegistry :: modelCollection where
  "exRegistry = \<lparr>registryByName = [(''User'', exUser)], commonMixins = [''Base'']\<rparr>"

text \<open>The names of \<open>Greet\<close>: as many as its parameters, one more, one less.\<close>

definition exAst :: astData where
  "exAst = [(''User'', ''Greet'') \<mapsto>
              \<lparr>MethodASTData.Params = [''name'', ''when''], MethodASTData.Doc = ''''\<rparr>]"

definition exAstLong :: astData where
  "exAstLong = [(''User'', ''Greet'') \<mapsto>
              \<lparr>MethodASTData.Params = [''name'', ''when'', ''extra''],
               MethodASTData.Doc = ''''\<rparr>]"

definition exAstShort :: astData where
  "exAstShort = [(''User'', ''Greet'') \<mapsto>
              \<lparr>MethodASTData.Params = [''name''], MethodASTData.Doc = ''''\<rparr>]"

text \<open>
  Names found on mixins only: \<open>Audit\<close> and \<open>Base\<close> both declare \<open>Log\<close>, the empty model
  name declares \<open>Log\<close> and \<open>Write\<close>.
\<close>

definition exAstMixins :: astData where
  "exAstMixins =
     [(''Audit'', ''Log'') \<mapsto> \<lparr>MethodASTData.Params = [''fromAudit''], MethodASTData.Doc = ''''\<rparr>,
      (''Base'', ''Log'') \<mapsto> \<lparr>MethodASTData.Params = [''fromBase''], MethodASTData.Doc = ''''\<rparr>,
      ('''', ''Log'') \<mapsto> \<lparr>MethodASTData.Params = [''fromGlobal''], MethodASTData.Doc = ''''\<rparr>,
      ('''', ''Write'') \<mapsto> \<lparr>MethodASTData.Params = [''data''], MethodASTData.Doc = ''''\<rparr>,
      (''User'', ''Greet'') \<mapsto> \<lparr>MethodASTData.Params = [''name'', ''when''], MethodASTData.Doc = ''''\<rparr>]"


text \<open>
  A model \<open>Event\<close> with a field whose type is a named pointer type of the generated
  package, \<open>type TimePtr *time.Time\<close>.
\<close>

definition exEvent :: modelInfo where
  "exEvent =
     \<lparr>name = ''Event'',
      fields_registryByName =
        [(''At'', \<lparr>isRelationField = False, relatedModelName = '''',
                   structField_Type =
                     NamedPtr exPoolPath ''pool.TimePtr'' (Named ''time'' ''time.Time'')\<rparr>)],
      methods_registry = [],
      mixins = []\<rparr>"

text \<open>
  What \<open>strings.ToLower\<close> gives on a string of ASCII bytes: the letters \<open>A\<close> to \<open>Z\<close> become
  \<open>a\<close> to \<open>z\<close>. It stands for \<open>strings.ToLower\<close> in the example run, whose model names
  are ASCII.
\<close>

definition lowerASCII :: "string \<Rightarrow> string" where
  "lowerASCII s =
     map (\<lambda>c. case map_of (zip ''ABCDEFGHIJKLMNOPQRSTUVWXYZ'' ''abcdefghijklmnopqrstuvwxyz'') c of
                 Some l \<Rightarrow> l
               | None \<Rightarrow> c) s"




section \<open>Properties of the action registry\<close>

lemma MakeActionRef_Some:
  "MakeActionRef (Some reg) k =
     Inr (case actions reg k of None \<Rightarrow> emptyActionRef | Some a \<Rightarrow> (k, BaseAction.Name a))"
  by (simp add: MakeActionRef_def GetById_def split: option.split)

text \<open>
  C6. After an action with ID \<open>a1\<close> and Name \<open>My Action\<close> is added to the registry,
  \<open>MakeActionRef "a1"\<close> is the pair \<open>("a1", "My Action")\<close>; for every id with no action
  in the registry, \<open>MakeActionRef\<close> is the empty \<open>ActionRef\<close>; and the empty \<open>ActionRef\<close>
  marshals to \<open>null\<close>, not to an array of two empty strings.
\<close>

theorem C6_action_identity:
  "(ID a = ''a1'' \<and> BaseAction.Name a = ''My Action'' \<longrightarrow>
      MakeActionRef (Some (snd (Add reg a))) ''a1'' = Inr (''a1'', ''My Action''))
   \<and> (actions reg k = None \<longrightarrow> MakeActionRef (Some reg) k = Inr emptyActionRef)
   \<and> MarshalJSON emptyActionRef = JNull
   \<and> MarshalJSON emptyActionRef \<noteq> JArray [JString '''', JString '''']"
  by (simp add: MakeActionRef_Some Add_def MarshalJSON_def emptyActionRef_def)

theorem C6_action_identity_witness:
  "ID myAction = ''a1'' \<and> BaseAction.Name myAction = ''My Action''
   \<and> MakeActionRef (Some (snd (Add NewActionsCollection myAction))) ''a1''
       = Inr (''a1'', ''My Action'')
   \<and> actions NewActionsCollection ''zz'' = None
   \<and> MakeActionRef (Some NewActionsCollection) ''zz'' = Inr emptyActionRef"
  using C6_action_identity [of myAction NewActionsCollection "''zz''"]
  by (simp add: NewActionsCollection_def myAction_def)

text \<open>
  C10. \<open>Scan\<close> returns an error exactly when the source is neither a string nor a byte
  slice, and then leaves the \<open>ActionRef\<close> as it was. For a source that is a string or a
  byte slice, \<open>Scan\<close> does what \<open>MakeActionRef\<close> does on the source read as a string: where
  \<open>MakeActionRef\<close> returns a reference, \<open>Scan\<close> sets the \<open>ActionRef\<close> to it and returns nil
  as error; where \<open>MakeActionRef\<close> panics (the registry is nil), so does \<open>Scan\<close>. Whenever
  \<open>Scan\<close> returns without error, the \<open>ActionRef\<close> is \<open>MakeActionRef\<close> of the source.
\<close>

theorem C10_Scan:
  "((\<exists>ar' msg. Scan Registry ar src = Inr (ar', Some msg)) \<longleftrightarrow> asString src = None)
   \<and> (asString src = None \<longrightarrow>
         Scan Registry ar src = Inr (ar, Some (''Invalid type for ActionRef: '' @ typeName src)))
   \<and> (\<forall>ar' msg. Scan Registry ar src = Inr (ar', Some msg) \<longrightarrow> ar' = ar)
   \<and> (\<forall>s r. asString src = Some s \<and> MakeActionRef Registry s = Inr r \<longrightarrow>
         Scan Registry ar src = Inr (r, None))
   \<and> (\<forall>s p. asString src = Some s \<and> MakeActionRef Registry s = Inl p \<longrightarrow>
         Scan Registry ar src = Inl p)
   \<and> (\<forall>ar'. Scan Registry ar src = Inr (ar', None) \<longrightarrow>
         (\<exists>s. asString src = Some s \<and> MakeActionRef Registry s = Inr ar'))"
  by (cases src) (auto split: sum.splits)

theorem C10_Scan_witness:
  "asString (SrcInt64 7) = None
   \<and> Scan (Some NewActionsCollection) (''x'', ''y'') (SrcInt64 7)
       = Inr ((''x'', ''y''), Some ''Invalid type for ActionRef: int64'')
   \<and> asString (SrcString ''a1'') = Some ''a1''
   \<and> MakeActionRef (Some (snd (Add NewActionsCollection myAction))) ''a1''
       = Inr (''a1'', ''My Action'')
   \<and> Scan (Some (snd (Add NewActionsCollection myAction))) (''x'', ''y'') (SrcString ''a1'')
       = Inr ((''a1'', ''My Action''), None)
   \<and> asString (SrcBytes ''a1'') = Some ''a1''
   \<and> Scan (Some (snd (Add NewActionsCollection myAction))) (''x'', ''y'') (SrcBytes ''a1'')
       = Inr ((''a1'', ''My Action''), None)
   \<and> MakeActionRef None ''a1'' = Inl NilPointerDereference
   \<and> Scan None (''x'', ''y'') (SrcString ''a1'') = Inl NilPointerDereference"
proof -
  have m: "MakeActionRef (Some (snd (Add NewActionsCollection myAction))) ''a1''
       = Inr (''a1'', ''My Action'')"
    by (simp add: MakeActionRef_Some NewActionsCollection_def Add_def myAction_def)
  have n: "MakeActionRef None ''a1'' = Inl NilPointerDereference"
    by (simp add: MakeActionRef_def)
  from C10_Scan [of "Some NewActionsCollection" "(''x'', ''y'')" "SrcInt64 7"]
    C10_Scan [of "Some (snd (Add NewActionsCollection myAction))" "(''x'', ''y'')"
      "SrcString ''a1''"]
    C10_Scan [of "Some (snd (Add NewActionsCollection myAction))" "(''x'', ''y'')"
      "SrcBytes ''a1''"]
    C10_Scan [of None "(''x'', ''y'')" "SrcString ''a1''"] m n
  show ?thesis by simp
qed

text \<open>
  C8. Every read and every write of the table is guarded by the collection's lock. \<open>Add\<close>
  writes between \<open>Lock\<close> and \<open>Unlock\<close>; \<open>GetById\<close> reads the table and calls neither
  \<open>RLock\<close> nor \<open>Lock\<close>, so its read is not guarded.
\<close>

theorem C8_GetById_reads_without_lock:
  "guarded Free (fst (Add reg a))
   \<and> fst (GetById reg ''a1'') = [TableRead ''a1'']
   \<and> \<not> guarded Free (fst (GetById reg ''a1''))"
  by (simp add: Add_def GetById_def)
section \<open>Properties of the pool generator\<close>

subsection \<open>What each step leaves alone\<close>

lemma addDependency_frame:
  "Fields (fst (addDependency d t deps)) = Fields d"
  "Methods (fst (addDependency d t deps)) = Methods d"
  "modelData.Name (fst (addDependency d t deps)) = modelData.Name d"
  by (simp_all add: addDependency_def Let_def)

lemma addField_frame:
  "Methods (fst (addField mi e st)) = Methods (fst st)"
  "Fields (fst (addField mi e st)) =
     Fields (fst st) @
       [\<lparr>fieldData.Name = fst e,
         fieldData.Type = (if isRelationField (snd e) then relatedModelName (snd e) @ ''Set''
                           else fst (sanitizedFieldType mi (structField_Type (snd e)))),
         TypeIsRS = isRelationField (snd e)\<rparr>]"
  by (cases e; cases st; simp add: addField_def Let_def addDependency_frame)+

lemma fold_addField_frame:
  "Methods (fst (fold (addField mi) es st)) = Methods (fst st)"
  "Fields (fst (fold (addField mi) es st)) =
     Fields (fst st) @
       map (\<lambda>e. \<lparr>fieldData.Name = fst e,
         fieldData.Type = (if isRelationField (snd e) then relatedModelName (snd e) @ ''Set''
                           else fst (sanitizedFieldType mi (structField_Type (snd e)))),
         TypeIsRS = isRelationField (snd e)\<rparr>) es"
  by (induction es arbitrary: st; simp add: addField_frame)+

lemma paramRound_eq:
  "paramRound mi ft d i (ps, pts, md, deps) =
     (case paramType mi ft i of
        Inl p \<Rightarrow> Inl p
      | Inr tb \<Rightarrow>
          if i < length (MethodASTData.Params d) then
            Inr (ps[i := (if snd tb then MethodASTData.Params d ! i @ ''.RecordCollection''
                          else MethodASTData.Params d ! i)],
                 pts[i := MethodASTData.Params d ! i @ '' '' @ fst tb],
                 addDependency md (ins ft ! (i + 1)) deps)
          else Inl (IndexOutOfRange i (length (MethodASTData.Params d))))"
  by (simp add: paramRound_def Let_def split: sum.splits prod.splits)

lemma paramRound_frame:
  assumes "paramRound mi ft d i (ps, pts, md, deps) = Inr (ps', pts', md', deps')"
  shows "Fields md' = Fields md" "Methods md' = Methods md"
    "length ps' = length ps" "length pts' = length pts"
proof -
  from assms have "md' = fst (addDependency md (ins ft ! (i + 1)) deps)
      \<and> length ps' = length ps \<and> length pts' = length pts"
    by (auto simp: paramRound_eq split: sum.splits if_splits)
  then show "Fields md' = Fields md" "Methods md' = Methods md"
    "length ps' = length ps" "length pts' = length pts"
    by (simp_all add: addDependency_frame)
qed

lemma paramsLoop_frame:
  assumes "paramsLoop mi ft d is (ps, pts, md, deps) = Inr (ps', pts', md', deps')"
  shows "Fields md' = Fields md \<and> Methods md' = Methods md"
  using assms
proof (induction "is" arbitrary: ps pts md deps)
  case Nil
  then show ?case by simp
next
  case (Cons i "is")
  from Cons.prems obtain ps1 pts1 md1 deps1 where
    r: "paramRound mi ft d i (ps, pts, md, deps) = Inr (ps1, pts1, md1, deps1)"
    and l: "paramsLoop mi ft d is (ps1, pts1, md1, deps1) = Inr (ps', pts', md', deps')"
    by (auto split: sum.splits)
  from Cons.IH [OF l] paramRound_frame(1,2) [OF r] show ?case by simp
qed

lemma wrapMethod_eq:
  "wrapMethod mi n m d (md, deps) =
     (if NumIn (methodType m) = 0 then Inl MakeSliceLenOutOfRange
      else
        (case paramsLoop mi (methodType m) d [0..<NumIn (methodType m) - 1]
                (replicate (NumIn (methodType m) - 1) '''',
                 replicate (NumIn (methodType m) - 1) '''', md, deps) of
           Inl p \<Rightarrow> Inl p
         | Inr st1 \<Rightarrow>
             (let md1 = fst (snd (snd st1)); deps1 = snd (snd (snd st1));
                  out = (if NumOut (methodType m) > 0
                         then addDependency md1 (outs (methodType m) ! 0) deps1
                         else (md1, deps1))
              in Inr ((fst out)\<lparr>Methods := Methods (fst out) @
                        [\<lparr>methodData.Name = n, methodData.Doc = doc m,
                          methodData.Params = Join (fst st1) '', '',
                          ParamsWithType = Join (fst (snd st1)) '', '',
                          Returns = (if NumOut (methodType m) > 0
                                     then fst (sanitizedFieldType mi (outs (methodType m) ! 0))
                                     else ''''),
                          ReturnsIsRS = (NumOut (methodType m) > 0 \<and>
                                     snd (sanitizedFieldType mi (outs (methodType m) ! 0)))\<rparr>]\<rparr>,
                      snd out))))"
  by (simp add: wrapMethod_def Let_def split: sum.splits prod.splits)

lemma wrapMethod_frame:
  assumes "wrapMethod mi n m d (md, deps) = Inr (md', deps')"
  shows "Fields md' = Fields md"
    and "\<exists>e. Methods md' = Methods md @ [e] \<and> methodData.Name e = n
           \<and> Returns e = (if NumOut (methodType m) > 0
                           then fst (sanitizedFieldType mi (outs (methodType m) ! 0)) else '''')
           \<and> ReturnsIsRS e = (NumOut (methodType m) > 0 \<and>
                           snd (sanitizedFieldType mi (outs (methodType m) ! 0)))"
proof -
  from assms obtain ps pts md1 deps1 where
    l: "paramsLoop mi (methodType m) d [0..<NumIn (methodType m) - 1]
          (replicate (NumIn (methodType m) - 1) '''',
           replicate (NumIn (methodType m) - 1) '''', md, deps) = Inr (ps, pts, md1, deps1)"
    by (auto simp: wrapMethod_eq split: if_splits sum.splits)
  note f = paramsLoop_frame [OF l]
  from assms l f show "Fields md' = Fields md"
    by (auto simp: wrapMethod_eq Let_def addDependency_frame split: if_splits)
  from assms l f show "\<exists>e. Methods md' = Methods md @ [e] \<and> methodData.Name e = n
           \<and> Returns e = (if NumOut (methodType m) > 0
                           then fst (sanitizedFieldType mi (outs (methodType m) ! 0)) else '''')
           \<and> ReturnsIsRS e = (NumOut (methodType m) > 0 \<and>
                           snd (sanitizedFieldType mi (outs (methodType m) ! 0)))"
    by (auto simp: wrapMethod_eq Let_def addDependency_frame split: if_splits)
qed

lemma addMethod_entries:
  assumes "addMethod reg mi ast e (md, deps) = Inr (md', deps')"
  shows "Fields md' = Fields md"
    and "\<exists>new. Methods md' = Methods md @ new \<and>
           list_all2 (\<lambda>e x. methodData.Name x = fst e
               \<and> Returns x = (if NumOut (methodType (snd e)) > 0
                     then fst (sanitizedFieldType mi (outs (methodType (snd e)) ! 0)) else '''')
               \<and> ReturnsIsRS x = (NumOut (methodType (snd e)) > 0 \<and>
                     snd (sanitizedFieldType mi (outs (methodType (snd e)) ! 0))))
             (filter (\<lambda>e. \<not> specificMethods (fst e)) [e]) new"
proof -
  obtain n m where e: "e = (n, m)" by (cases e)
  show "Fields md' = Fields md"
  proof (cases "specificMethods n")
    case True
    with assms e show ?thesis by (simp add: addMethod_def)
  next
    case False
    with assms e have "wrapMethod mi n m (lookupParams reg mi ast n) (md, deps) = Inr (md', deps')"
      by (simp add: addMethod_def)
    then show ?thesis by (rule wrapMethod_frame)
  qed
  show "\<exists>new. Methods md' = Methods md @ new \<and>
           list_all2 (\<lambda>e x. methodData.Name x = fst e
               \<and> Returns x = (if NumOut (methodType (snd e)) > 0
                     then fst (sanitizedFieldType mi (outs (methodType (snd e)) ! 0)) else '''')
               \<and> ReturnsIsRS x = (NumOut (methodType (snd e)) > 0 \<and>
                     snd (sanitizedFieldType mi (outs (methodType (snd e)) ! 0))))
             (filter (\<lambda>e. \<not> specificMethods (fst e)) [e]) new"
  proof (cases "specificMethods n")
    case True
    with assms e show ?thesis by (simp add: addMethod_def)
  next
    case False
    with assms e have "wrapMethod mi n m (lookupParams reg mi ast n) (md, deps) = Inr (md', deps')"
      by (simp add: addMethod_def)
    from wrapMethod_frame(2) [OF this] obtain x where
      "Methods md' = Methods md @ [x]" "methodData.Name x = n"
      "Returns x = (if NumOut (methodType m) > 0
                           then fst (sanitizedFieldType mi (outs (methodType m) ! 0)) else '''')"
      "ReturnsIsRS x = (NumOut (methodType m) > 0 \<and>
                           snd (sanitizedFieldType mi (outs (methodType m) ! 0)))"
      by blast
    with False e show ?thesis by (intro exI [of _ "[x]"]) simp
  qed
qed

lemma addMethodsLoop_entries:
  assumes "addMethodsLoop reg mi ast es (md, deps) = Inr (md', deps')"
  shows "Fields md' = Fields md \<and>
         (\<exists>new. Methods md' = Methods md @ new \<and>
           list_all2 (\<lambda>e x. methodData.Name x = fst e
               \<and> Returns x = (if NumOut (methodType (snd e)) > 0
                     then fst (sanitizedFieldType mi (outs (methodType (snd e)) ! 0)) else '''')
               \<and> ReturnsIsRS x = (NumOut (methodType (snd e)) > 0 \<and>
                     snd (sanitizedFieldType mi (outs (methodType (snd e)) ! 0))))
             (filter (\<lambda>e. \<not> specificMethods (fst e)) es) new)"
  using assms
proof (induction es arbitrary: md deps)
  case Nil
  then show ?case by simp
next
  case (Cons e es)
  from Cons.prems obtain md1 deps1 where
    a: "addMethod reg mi ast e (md, deps) = Inr (md1, deps1)"
    and l: "addMethodsLoop reg mi ast es (md1, deps1) = Inr (md', deps')"
    by (auto split: sum.splits)
  from addMethod_entries [OF a] obtain new1 where
    f1: "Fields md1 = Fields md" and m1: "Methods md1 = Methods md @ new1"
    and r1: "list_all2 (\<lambda>e x. methodData.Name x = fst e
               \<and> Returns x = (if NumOut (methodType (snd e)) > 0
                     then fst (sanitizedFieldType mi (outs (methodType (snd e)) ! 0)) else '''')
               \<and> ReturnsIsRS x = (NumOut (methodType (snd e)) > 0 \<and>
                     snd (sanitizedFieldType mi (outs (methodType (snd e)) ! 0))))
             (filter (\<lambda>e. \<not> specificMethods (fst e)) [e]) new1"
    by blast
  from Cons.IH [OF l] obtain new2 where
    f2: "Fields md' = Fields md1" and m2: "Methods md' = Methods md1 @ new2"
    and r2: "list_all2 (\<lambda>e x. methodData.Name x = fst e
               \<and> Returns x = (if NumOut (methodType (snd e)) > 0
                     then fst (sanitizedFieldType mi (outs (methodType (snd e)) ! 0)) else '''')
               \<and> ReturnsIsRS x = (NumOut (methodType (snd e)) > 0 \<and>
                     snd (sanitizedFieldType mi (outs (methodType (snd e)) ! 0))))
             (filter (\<lambda>e. \<not> specificMethods (fst e)) es) new2"
    by blast
  have "filter (\<lambda>e. \<not> specificMethods (fst e)) (e # es)
        = filter (\<lambda>e. \<not> specificMethods (fst e)) [e] @ filter (\<lambda>e. \<not> specificMethods (fst e)) es"
    by simp
  then have "list_all2 (\<lambda>e x. methodData.Name x = fst e
               \<and> Returns x = (if NumOut (methodType (snd e)) > 0
                     then fst (sanitizedFieldType mi (outs (methodType (snd e)) ! 0)) else '''')
               \<and> ReturnsIsRS x = (NumOut (methodType (snd e)) > 0 \<and>
                     snd (sanitizedFieldType mi (outs (methodType (snd e)) ! 0))))
             (filter (\<lambda>e. \<not> specificMethods (fst e)) (e # es)) (new1 @ new2)"
    using list_all2_appendI [OF r1 r2] by simp
  moreover have "Methods md' = Methods md @ (new1 @ new2)"
    using m1 m2 by simp
  moreover have "Fields md' = Fields md"
    using f1 f2 by simp
  ultimately show ?case by blast
qed

text \<open>The parts of \<open>generateModelPoolFile\<close>, named.\<close>

lemma generateModelPoolFile_eq:
  "generateModelPoolFile PoolPath ModelsPath reg mi fileName ast =
     (case addMethodsLoop reg mi ast (methods_registry mi)
        (fold (addField mi) (fields_registryByName mi)
          (\<lparr>modelData.Name = name mi, Deps = [ModelsPath], Fields = [], Methods = []\<rparr>,
           (\<lambda>p. False)(PoolPath := True))) of
        Inl p \<Rightarrow> Inl p
      | Inr st \<Rightarrow> Inr (fileName, fst st))"
  unfolding generateModelPoolFile_def addFieldsToModelData_def addMethodsToModelData_def Let_def
  by (simp split: prod.splits sum.splits)


text \<open>What a generation that returns has put into the model data.\<close>

lemma generateModelPoolFile_Inr:
  assumes "generateModelPoolFile PoolPath ModelsPath reg mi fileName ast = Inr (f, d)"
  shows "f = fileName"
    and "Fields d = map (\<lambda>e. \<lparr>fieldData.Name = fst e,
         fieldData.Type = (if isRelationField (snd e) then relatedModelName (snd e) @ ''Set''
                           else fst (sanitizedFieldType mi (structField_Type (snd e)))),
         TypeIsRS = isRelationField (snd e)\<rparr>) (fields_registryByName mi)"
    and "list_all2 (\<lambda>e x. methodData.Name x = fst e
               \<and> Returns x = (if NumOut (methodType (snd e)) > 0
                     then fst (sanitizedFieldType mi (outs (methodType (snd e)) ! 0)) else '''')
               \<and> ReturnsIsRS x = (NumOut (methodType (snd e)) > 0 \<and>
                     snd (sanitizedFieldType mi (outs (methodType (snd e)) ! 0))))
             (filter (\<lambda>e. \<not> specificMethods (fst e)) (methods_registry mi)) (Methods d)"
proof -
  let ?st0 = "fold (addField mi) (fields_registryByName mi)
          (\<lparr>modelData.Name = name mi, Deps = [ModelsPath], Fields = [], Methods = []\<rparr>,
           (\<lambda>p. False)(PoolPath := True))"
  from assms obtain deps' where
    l: "addMethodsLoop reg mi ast (methods_registry mi) ?st0 = Inr (d, deps')" and f: "f = fileName"
    by (auto simp: generateModelPoolFile_eq split: sum.splits)
  show "f = fileName" by (rule f)
  have l': "addMethodsLoop reg mi ast (methods_registry mi) (fst ?st0, snd ?st0) = Inr (d, deps')"
    using l by simp
  note e = addMethodsLoop_entries [OF l']
  from e show "Fields d = map (\<lambda>e. \<lparr>fieldData.Name = fst e,
         fieldData.Type = (if isRelationField (snd e) then relatedModelName (snd e) @ ''Set''
                           else fst (sanitizedFieldType mi (structField_Type (snd e)))),
         TypeIsRS = isRelationField (snd e)\<rparr>) (fields_registryByName mi)"
    by (simp add: fold_addField_frame)
  from e show "list_all2 (\<lambda>e x. methodData.Name x = fst e
               \<and> Returns x = (if NumOut (methodType (snd e)) > 0
                     then fst (sanitizedFieldType mi (outs (methodType (snd e)) ! 0)) else '''')
               \<and> ReturnsIsRS x = (NumOut (methodType (snd e)) > 0 \<and>
                     snd (sanitizedFieldType mi (outs (methodType (snd e)) ! 0))))
             (filter (\<lambda>e. \<not> specificMethods (fst e)) (methods_registry mi)) (Methods d)"
    by (clarsimp simp: fold_addField_frame)
qed

subsection \<open>Evaluating the generator on the examples\<close>

lemmas generator_eval =
  generateModelPoolFile_eq addField_def addMethod_def wrapMethod_eq paramRound_eq paramType_def
  sanitizedFieldType_def addDependency_def lookupParams_def specificMethods_def
  RecordCollection_def NumIn_def NumOut_def Let_def upt_rec
  exUser_def exGreet_def exRegistry_def exPoolPath_def exModelsPath_def

lemma exUser_generated:
  "generateModelPoolFile exPoolPath exModelsPath exRegistry exUser ''out/user.go'' exAst
   = Inr (''out/user.go'',
       \<lparr>modelData.Name = ''User'', Deps = [exModelsPath, exModelsPath, ''time''],
        Fields = [\<lparr>fieldData.Name = ''UserName'', fieldData.Type = ''string'', TypeIsRS = False\<rparr>,
                  \<lparr>fieldData.Name = ''Profile'', fieldData.Type = ''ProfileSet'', TypeIsRS = True\<rparr>,
                  \<lparr>fieldData.Name = ''Posts'', fieldData.Type = ''PostSet'', TypeIsRS = True\<rparr>],
        Methods = [\<lparr>methodData.Name = ''Greet'', methodData.Doc = ''// Greet greets'',
                    methodData.Params = ''name, when'',
                    ParamsWithType = ''name string, when *time.Time'',
                    Returns = ''UserSet'', ReturnsIsRS = True\<rparr>]\<rparr>)"
  by (simp add: generator_eval exAst_def)


lemma exEvent_generated:
  "generateModelPoolFile exPoolPath exModelsPath exRegistry exEvent ''out/event.go'' Map.empty
   = Inr (''out/event.go'',
       \<lparr>modelData.Name = ''Event'', Deps = [exModelsPath, ''time''],
        Fields = [\<lparr>fieldData.Name = ''At'', fieldData.Type = ''TimePtr'', TypeIsRS = False\<rparr>],
        Methods = []\<rparr>)"
  by (simp add: generator_eval exEvent_def addMethodsToModelData_def)

subsection \<open>The methods that get a wrapper\<close>

lemma count_list_distinct:
  "distinct xs \<Longrightarrow> count_list xs x = (if x \<in> set xs then 1 else 0)"
  by (induction xs) auto

text \<open>
  C7. The methods named \<open>Create\<close>, \<open>First\<close> and \<open>All\<close> get no entry in the list of
  generic wrappers; every other method of the model gets exactly one. For a generation that
  returns, the names of the entries are the names of the registry, in the order of the
  loop, without these three; a Go map has each name once, and then each remaining name
  has one entry.
\<close>

theorem C7_specific_methods_skipped:
  assumes "generateModelPoolFile PoolPath ModelsPath reg mi fileName ast = Inr (f, d)"
  shows "map methodData.Name (Methods d) =
           filter (\<lambda>n. n \<noteq> ''Create'' \<and> n \<noteq> ''First'' \<and> n \<noteq> ''All'')
             (map fst (methods_registry mi))
         \<and> (distinct (map fst (methods_registry mi)) \<longrightarrow>
              (\<forall>n. count_list (map methodData.Name (Methods d)) n =
                 (if n \<in> fst ` set (methods_registry mi)
                     \<and> n \<noteq> ''Create'' \<and> n \<noteq> ''First'' \<and> n \<noteq> ''All'' then 1 else 0)))"
proof -
  from generateModelPoolFile_Inr(3) [OF assms]
  have "map methodData.Name (Methods d) =
          map fst (filter (\<lambda>e. \<not> specificMethods (fst e)) (methods_registry mi))"
    by (induction rule: list_all2_induct) auto
  then have names: "map methodData.Name (Methods d) =
           filter (\<lambda>n. n \<noteq> ''Create'' \<and> n \<noteq> ''First'' \<and> n \<noteq> ''All'')
             (map fst (methods_registry mi))"
    by (simp add: filter_map comp_def specificMethods_def)
  show ?thesis
  proof (intro conjI impI allI)
    show "map methodData.Name (Methods d) =
           filter (\<lambda>n. n \<noteq> ''Create'' \<and> n \<noteq> ''First'' \<and> n \<noteq> ''All'')
             (map fst (methods_registry mi))"
      by (rule names)
  next
    fix n
    assume "distinct (map fst (methods_registry mi))"
    then have dist: "distinct (map methodData.Name (Methods d))"
      unfolding names by (rule distinct_filter)
    have mem: "n \<in> set (map methodData.Name (Methods d)) \<longleftrightarrow>
                 n \<in> fst ` set (methods_registry mi)
                     \<and> n \<noteq> ''Create'' \<and> n \<noteq> ''First'' \<and> n \<noteq> ''All''"
      unfolding names by auto
    show "count_list (map methodData.Name (Methods d)) n =
                 (if n \<in> fst ` set (methods_registry mi)
                     \<and> n \<noteq> ''Create'' \<and> n \<noteq> ''First'' \<and> n \<noteq> ''All'' then 1 else 0)"
      by (simp only: count_list_distinct [OF dist] mem)
  qed
qed

theorem C7_specific_methods_skipped_witness:
  "generateModelPoolFile exPoolPath exModelsPath exRegistry exUser ''out/user.go'' exAst
     = Inr (''out/user.go'', snd (projr (generateModelPoolFile exPoolPath exModelsPath
              exRegistry exUser ''out/user.go'' exAst)))
   \<and> map fst (methods_registry exUser) = [''Greet'', ''Create'']
   \<and> distinct (map fst (methods_registry exUser))
   \<and> map methodData.Name (Methods (snd (projr (generateModelPoolFile exPoolPath exModelsPath
              exRegistry exUser ''out/user.go'' exAst)))) = [''Greet'']
   \<and> count_list (map methodData.Name (Methods (snd (projr (generateModelPoolFile exPoolPath
              exModelsPath exRegistry exUser ''out/user.go'' exAst))))) ''Greet'' = 1
   \<and> count_list (map methodData.Name (Methods (snd (projr (generateModelPoolFile exPoolPath
              exModelsPath exRegistry exUser ''out/user.go'' exAst))))) ''Create'' = 0"
  using C7_specific_methods_skipped [of exPoolPath exModelsPath exRegistry exUser
      "''out/user.go''" exAst "''out/user.go''"
      "snd (projr (generateModelPoolFile exPoolPath exModelsPath exRegistry exUser
         ''out/user.go'' exAst))"]
  by (simp add: exUser_generated) (simp add: exUser_def)

subsection \<open>Where the parameter names come from\<close>

lemma mixInLoop_none:
  "(\<forall>j<n. astData (allMixIns ! j, m) = None) \<Longrightarrow> mixInLoop astData allMixIns m n = None"
  by (induction n) auto

lemma mixInLoop_hit:
  "i < n \<Longrightarrow> astData (allMixIns ! i, m) = Some d \<Longrightarrow>
   (\<forall>j. i < j \<and> j < n \<longrightarrow> astData (allMixIns ! j, m) = None) \<Longrightarrow>
   mixInLoop astData allMixIns m n = Some d"
proof (induction n)
  case 0
  then show ?case by simp
next
  case (Suc n)
  show ?case
  proof (cases "i = n")
    case True
    with Suc.prems show ?thesis by simp
  next
    case False
    with Suc.prems have "i < n" and "astData (allMixIns ! n, m) = None" by auto
    with Suc show ?thesis by simp
  qed
qed

text \<open>
  C4. The names and the documentation of a method of a model are looked up in this order,
  the first match wins: the key (model, method); then the keys (mixin, method) along the
  model's list of mixins, the common mixins followed by its own, from the last applied to
  the first; then the key with the empty model name; with no match at all, the value is
  the zero value.
\<close>

theorem C4_lookup_order:
  "(astData (name mi, m) = Some d \<longrightarrow> lookupParams reg mi astData m = d)
   \<and> (astData (name mi, m) = None \<and> i < length (commonMixins reg @ mixins mi)
        \<and> astData ((commonMixins reg @ mixins mi) ! i, m) = Some d
        \<and> (\<forall>j. i < j \<and> j < length (commonMixins reg @ mixins mi)
                \<longrightarrow> astData ((commonMixins reg @ mixins mi) ! j, m) = None)
        \<longrightarrow> lookupParams reg mi astData m = d)
   \<and> (astData (name mi, m) = None
        \<and> (\<forall>j < length (commonMixins reg @ mixins mi).
               astData ((commonMixins reg @ mixins mi) ! j, m) = None)
        \<longrightarrow> lookupParams reg mi astData m =
              (case astData ('''', m) of Some g \<Rightarrow> g | None \<Rightarrow> zeroMethodASTData))"
proof (intro conjI impI)
  assume "astData (name mi, m) = Some d"
  then show "lookupParams reg mi astData m = d"
    by (simp add: lookupParams_def)
next
  assume a: "astData (name mi, m) = None \<and> i < length (commonMixins reg @ mixins mi)
        \<and> astData ((commonMixins reg @ mixins mi) ! i, m) = Some d
        \<and> (\<forall>j. i < j \<and> j < length (commonMixins reg @ mixins mi)
                \<longrightarrow> astData ((commonMixins reg @ mixins mi) ! j, m) = None)"
  then have "mixInLoop astData (commonMixins reg @ mixins mi) m
               (length (commonMixins reg @ mixins mi)) = Some d"
    by (intro mixInLoop_hit [of i]) blast+
  with a show "lookupParams reg mi astData m = d"
    by (simp add: lookupParams_def Let_def)
next
  assume a: "astData (name mi, m) = None
        \<and> (\<forall>j < length (commonMixins reg @ mixins mi).
               astData ((commonMixins reg @ mixins mi) ! j, m) = None)"
  then have "mixInLoop astData (commonMixins reg @ mixins mi) m
               (length (commonMixins reg @ mixins mi)) = None"
    by (intro mixInLoop_none) blast
  with a show "lookupParams reg mi astData m =
              (case astData ('''', m) of Some g \<Rightarrow> g | None \<Rightarrow> zeroMethodASTData)"
    by (simp add: lookupParams_def Let_def)
qed

theorem C4_lookup_order_witness:
  "exAstMixins (name exUser, ''Greet'') =
      Some \<lparr>MethodASTData.Params = [''name'', ''when''], MethodASTData.Doc = ''''\<rparr>
   \<and> lookupParams exRegistry exUser exAstMixins ''Greet'' =
      \<lparr>MethodASTData.Params = [''name'', ''when''], MethodASTData.Doc = ''''\<rparr>
   \<and> commonMixins exRegistry @ mixins exUser = [''Base'', ''Audit'', ''Mail'']
   \<and> exAstMixins (name exUser, ''Log'') = None
   \<and> exAstMixins (''Mail'', ''Log'') = None
   \<and> exAstMixins (''Audit'', ''Log'') =
      Some \<lparr>MethodASTData.Params = [''fromAudit''], MethodASTData.Doc = ''''\<rparr>
   \<and> exAstMixins (''Base'', ''Log'') =
      Some \<lparr>MethodASTData.Params = [''fromBase''], MethodASTData.Doc = ''''\<rparr>
   \<and> lookupParams exRegistry exUser exAstMixins ''Log'' =
      \<lparr>MethodASTData.Params = [''fromAudit''], MethodASTData.Doc = ''''\<rparr>
   \<and> exAstMixins (name exUser, ''Write'') = None
   \<and> exAstMixins (''Base'', ''Write'') = None \<and> exAstMixins (''Audit'', ''Write'') = None
   \<and> exAstMixins (''Mail'', ''Write'') = None
   \<and> lookupParams exRegistry exUser exAstMixins ''Write'' =
      \<lparr>MethodASTData.Params = [''data''], MethodASTData.Doc = ''''\<rparr>"
proof -
  have all: "commonMixins exRegistry @ mixins exUser = [''Base'', ''Audit'', ''Mail'']"
    by (simp add: exRegistry_def exUser_def)
  have nm: "name exUser = ''User''" by (simp add: exUser_def)
  have later: "\<forall>j. 1 < j \<and> j < length (commonMixins exRegistry @ mixins exUser)
      \<longrightarrow> exAstMixins ((commonMixins exRegistry @ mixins exUser) ! j, ''Log'') = None"
    unfolding all by (auto simp: exAstMixins_def less_Suc_eq numeral_3_eq_3)
  have none: "\<forall>j < length (commonMixins exRegistry @ mixins exUser).
      exAstMixins ((commonMixins exRegistry @ mixins exUser) ! j, ''Write'') = None"
    unfolding all by (auto simp: exAstMixins_def less_Suc_eq numeral_3_eq_3)
  from C4_lookup_order [of exAstMixins exUser "''Greet''"
      "\<lparr>MethodASTData.Params = [''name'', ''when''], MethodASTData.Doc = ''''\<rparr>" exRegistry 0]
  have g: "lookupParams exRegistry exUser exAstMixins ''Greet'' =
      \<lparr>MethodASTData.Params = [''name'', ''when''], MethodASTData.Doc = ''''\<rparr>"
    by (simp add: nm exAstMixins_def)
  from C4_lookup_order [of exAstMixins exUser "''Log''"
      "\<lparr>MethodASTData.Params = [''fromAudit''], MethodASTData.Doc = ''''\<rparr>" exRegistry 1] later
  have l: "lookupParams exRegistry exUser exAstMixins ''Log'' =
      \<lparr>MethodASTData.Params = [''fromAudit''], MethodASTData.Doc = ''''\<rparr>"
    by (simp add: nm all) (simp add: exAstMixins_def)
  from C4_lookup_order [of exAstMixins exUser "''Write''" undefined exRegistry 0] none
  have w: "lookupParams exRegistry exUser exAstMixins ''Write'' =
      \<lparr>MethodASTData.Params = [''data''], MethodASTData.Doc = ''''\<rparr>"
    by (simp add: nm) (simp add: exAstMixins_def)
  show ?thesis
    using g l w all by (simp add: nm) (simp add: exAstMixins_def)
qed

subsection \<open>The files of a run\<close>

lemma generateModelPoolFile_name:
  assumes "generateModelPoolFile PoolPath ModelsPath reg mi fileName ast = Inr (f, d)"
  shows "f = fileName \<and> modelData.Name d = name mi"
proof -
  let ?st0 = "fold (addField mi) (fields_registryByName mi)
          (\<lparr>modelData.Name = name mi, Deps = [ModelsPath], Fields = [], Methods = []\<rparr>,
           (\<lambda>p. False)(PoolPath := True))"
  have frame_field: "\<And>e st. modelData.Name (fst (addField mi e st)) = modelData.Name (fst st)"
    by (simp add: addField_def Let_def addDependency_frame split: prod.splits)
  have n0: "\<And>es st. modelData.Name (fst (fold (addField mi) es st)) = modelData.Name (fst st)"
    subgoal for es st by (induction es arbitrary: st) (simp_all add: frame_field)
    done
  have round: "\<And>ft dp i ps pts md deps ps' pts' md' deps'.
      paramRound mi ft dp i (ps, pts, md, deps) = Inr (ps', pts', md', deps')
      \<Longrightarrow> modelData.Name md' = modelData.Name md"
    by (auto simp: paramRound_eq addDependency_def Let_def split: sum.splits if_splits)
  have loop: "\<And>ft dp is ps pts md deps ps' pts' md' deps'.
      paramsLoop mi ft dp is (ps, pts, md, deps) = Inr (ps', pts', md', deps')
      \<Longrightarrow> modelData.Name md' = modelData.Name md"
    subgoal for ft dp "is" ps pts md deps ps' pts' md' deps'
    proof (induction "is" arbitrary: ps pts md deps)
      case Nil
      then show ?case by simp
    next
      case (Cons i "is")
      from Cons.prems obtain ps1 pts1 md1 deps1 where
        r: "paramRound mi ft dp i (ps, pts, md, deps) = Inr (ps1, pts1, md1, deps1)"
        and l: "paramsLoop mi ft dp is (ps1, pts1, md1, deps1) = Inr (ps', pts', md', deps')"
        by (auto split: sum.splits)
      from Cons.IH [OF l] round [OF r] show ?case by simp
    qed
    done
  have wrap: "\<And>n m dp md deps md' deps'.
      wrapMethod mi n m dp (md, deps) = Inr (md', deps')
      \<Longrightarrow> modelData.Name md' = modelData.Name md"
    by (auto simp: wrapMethod_eq Let_def addDependency_frame
        split: if_splits sum.splits dest!: loop)
  have meths: "\<And>es md deps md' deps'.
      addMethodsLoop reg mi ast es (md, deps) = Inr (md', deps')
      \<Longrightarrow> modelData.Name md' = modelData.Name md"
    subgoal for es md deps md' deps'
    proof (induction es arbitrary: md deps)
      case Nil
      then show ?case by simp
    next
      case (Cons e es)
      from Cons.prems obtain md1 deps1 where
        a: "addMethod reg mi ast e (md, deps) = Inr (md1, deps1)"
        and l: "addMethodsLoop reg mi ast es (md1, deps1) = Inr (md', deps')"
        by (auto split: sum.splits)
      from a have "modelData.Name md1 = modelData.Name md"
        by (cases e) (auto simp: addMethod_def split: if_splits dest: wrap)
      with Cons.IH [OF l] show ?case by simp
    qed
    done
  from assms obtain deps' where
    l: "addMethodsLoop reg mi ast (methods_registry mi) (fst ?st0, snd ?st0) = Inr (d, deps')"
    and f: "f = fileName"
    by (auto simp: generateModelPoolFile_eq split: sum.splits)
  from meths [OF l] f show ?thesis by (simp add: n0)
qed

lemma generateLoop_files:
  assumes "generateLoop toLower pathJoin PoolPath ModelsPath reg dir ast ms files = (files', None)"
  shows "\<exists>new. files' = files @ new \<and>
           list_all2 (\<lambda>e file. fst file = pathJoin dir (toLower (fst e) @ ''.go'')
                        \<and> modelData.Name (snd file) = name (snd e)) ms new"
  using assms
proof (induction ms arbitrary: files)
  case Nil
  then show ?case by simp
next
  case (Cons e ms)
  obtain n mi where e: "e = (n, mi)" by (cases e)
  from Cons.prems e obtain fw where
    g: "generateModelPoolFile PoolPath ModelsPath reg mi (pathJoin dir (toLower n @ ''.go'')) ast
          = Inr fw"
    and l: "generateLoop toLower pathJoin PoolPath ModelsPath reg dir ast ms (files @ [fw])
          = (files', None)"
    by (auto simp: Let_def split: sum.splits)
  from g generateModelPoolFile_name [of PoolPath ModelsPath reg mi _ ast "fst fw" "snd fw"]
  have fl: "fst fw = pathJoin dir (toLower n @ ''.go'') \<and> modelData.Name (snd fw) = name mi"
    by simp
  from Cons.IH [OF l] obtain new where
    "files' = (files @ [fw]) @ new"
    "list_all2 (\<lambda>e file. fst file = pathJoin dir (toLower (fst e) @ ''.go'')
                        \<and> modelData.Name (snd file) = name (snd e)) ms new"
    by blast
  with fl e show ?case
    by (intro exI [of _ "fw # new"]) simp
qed

text \<open>
  C9. For every model of the registry the generator writes one file, named by the model's
  name in lower case followed by \<open>.go\<close>, in the directory it was given: in a run that
  ends without a panic, the files written are, model by model in the order of the loop,
  \<open>path.Join(dir, strings.ToLower(modelName) + ".go")\<close>, each rendered from the data of its
  model. This holds for every model name, \<open>toLower\<close> and \<open>pathJoin\<close> being the two library
  functions.
\<close>

theorem C9_one_file_per_model:
  assumes "GeneratePool bootstrap toLower pathJoin PoolPath ModelsPath modelRegistry dir astData
             = (files, None)"
  shows "\<exists>reg. bootstrap modelRegistry = Inr reg
           \<and> length files = length (registryByName reg)
           \<and> list_all2 (\<lambda>e file. fst file = pathJoin dir (toLower (fst e) @ ''.go'')
                          \<and> modelData.Name (snd file) = name (snd e))
               (registryByName reg) files"
proof -
  from assms obtain reg where
    b: "bootstrap modelRegistry = Inr reg"
    and l: "generateLoop toLower pathJoin PoolPath ModelsPath reg dir astData
              (registryByName reg) [] = (files, None)"
    by (auto simp: GeneratePool_def split: sum.splits)
  from generateLoop_files [OF l]
  have a: "list_all2 (\<lambda>e file. fst file = pathJoin dir (toLower (fst e) @ ''.go'')
                          \<and> modelData.Name (snd file) = name (snd e))
               (registryByName reg) files"
    by simp
  from a have "length files = length (registryByName reg)"
    by (simp add: list_all2_lengthD)
  with a b show ?thesis by blast
qed

theorem C9_one_file_per_model_witness:
  "GeneratePool Inr lowerASCII (\<lambda>d f. d @ ''/'' @ f) exPoolPath exModelsPath exRegistry
       ''out'' exAst
     = ([(''out/user.go'', snd (projr (generateModelPoolFile exPoolPath exModelsPath
              exRegistry exUser ''out/user.go'' exAst)))], None)
   \<and> registryByName exRegistry = [(''User'', exUser)]
   \<and> lowerASCII ''User'' @ ''.go'' = ''user.go''
   \<and> modelData.Name (snd (projr (generateModelPoolFile exPoolPath exModelsPath
              exRegistry exUser ''out/user.go'' exAst))) = name exUser"
proof -
  have lower: "lowerASCII ''User'' @ ''.go'' = ''user.go''"
    by (simp add: lowerASCII_def)
  have run: "GeneratePool Inr lowerASCII (\<lambda>d f. d @ ''/'' @ f) exPoolPath exModelsPath
       exRegistry ''out'' exAst
     = ([(''out/user.go'', snd (projr (generateModelPoolFile exPoolPath exModelsPath
              exRegistry exUser ''out/user.go'' exAst)))], None)"
    by (simp add: GeneratePool_def exRegistry_def [of] lower exUser_generated [unfolded exRegistry_def])
  from C9_one_file_per_model [OF run]
  show ?thesis
    using run lower by (simp add: exRegistry_def)
qed

subsection \<open>The names of recordset types\<close>








subsection \<open>The list of dependencies\<close>

lemma addDependency_note:
  "(Deps (fst (addDependency d t deps)), snd (addDependency d t deps))
     = notePath (PkgPath (stripPtr t)) (Deps d, deps)"
  by (simp add: addDependency_def notePath_def Let_def)

lemma addField_note:
  "(Deps (fst (addField mi e st)), snd (addField mi e st))
     = notePath (PkgPath (stripPtr (structField_Type (snd e)))) (Deps (fst st), snd st)"
proof -
  obtain n fi md deps where e: "e = (n, fi)" and st: "st = (md, deps)"
    by (cases e, cases st) auto
  show ?thesis
    unfolding e st
    by (simp add: addField_def Let_def split: prod.splits)
      (simp add: addDependency_def notePath_def Let_def)
qed

lemma fold_addField_note:
  "(Deps (fst (fold (addField mi) es st)), snd (fold (addField mi) es st))
     = fold notePath (map (\<lambda>e. PkgPath (stripPtr (structField_Type (snd e)))) es)
         (Deps (fst st), snd st)"
  by (induction es arbitrary: st) (simp_all add: addField_note)

lemma paramRound_note:
  assumes "paramRound mi ft d i (ps, pts, md, deps) = Inr (ps', pts', md', deps')"
  shows "(Deps md', deps') = notePath (PkgPath (stripPtr (ins ft ! (i + 1)))) (Deps md, deps)"
proof -
  from assms have "(md', deps') = addDependency md (ins ft ! (i + 1)) deps"
    by (auto simp: paramRound_eq split: sum.splits if_splits)
  then have "md' = fst (addDependency md (ins ft ! (i + 1)) deps)"
    and "deps' = snd (addDependency md (ins ft ! (i + 1)) deps)"
    by (simp_all add: prod_eq_iff)
  then show ?thesis by (simp only: addDependency_note)
qed

lemma paramsLoop_note:
  assumes "paramsLoop mi ft d is (ps, pts, md, deps) = Inr (ps', pts', md', deps')"
  shows "(Deps md', deps')
     = fold notePath (map (\<lambda>i. PkgPath (stripPtr (ins ft ! (i + 1)))) is) (Deps md, deps)"
  using assms
proof (induction "is" arbitrary: ps pts md deps)
  case Nil
  then show ?case by simp
next
  case (Cons i "is")
  from Cons.prems obtain ps1 pts1 md1 deps1 where
    r: "paramRound mi ft d i (ps, pts, md, deps) = Inr (ps1, pts1, md1, deps1)"
    and l: "paramsLoop mi ft d is (ps1, pts1, md1, deps1) = Inr (ps', pts', md', deps')"
    by (auto split: sum.splits)
  from Cons.IH [OF l] paramRound_note [OF r] show ?case by simp
qed

lemma map_nth_Suc_tl:
  "map (\<lambda>i. f (xs ! (i + 1))) [0..<length xs - 1] = map f (tl xs)"
  by (rule nth_equalityI) (simp_all add: nth_tl)

lemma wrapMethod_note:
  assumes "wrapMethod mi n m d (md, deps) = Inr (md', deps')"
  shows "(Deps md', deps')
     = fold notePath (map (\<lambda>t. PkgPath (stripPtr t)) (wrappedTypes m)) (Deps md, deps)"
proof -
  from assms obtain ps pts md1 deps1 where
    l: "paramsLoop mi (methodType m) d [0..<NumIn (methodType m) - 1]
          (replicate (NumIn (methodType m) - 1) '''',
           replicate (NumIn (methodType m) - 1) '''', md, deps) = Inr (ps, pts, md1, deps1)"
    by (auto simp: wrapMethod_eq split: if_splits sum.splits)
  from paramsLoop_note [OF l]
    map_nth_Suc_tl [of "\<lambda>t. PkgPath (stripPtr t)" "ins (methodType m)"]
  have p: "(Deps md1, deps1)
     = fold notePath (map (\<lambda>t. PkgPath (stripPtr t)) (tl (ins (methodType m)))) (Deps md, deps)"
    by (simp add: NumIn_def)
  show ?thesis
  proof (cases "NumOut (methodType m) > 0")
    case True
    then have t: "take (Suc 0) (outs (methodType m)) = [outs (methodType m) ! 0]"
      by (cases "outs (methodType m)") (simp_all add: NumOut_def)
    from assms l True
    have "md' = (fst (addDependency md1 (outs (methodType m) ! 0) deps1))
             \<lparr>Methods := Methods md' \<rparr>"
      and "deps' = snd (addDependency md1 (outs (methodType m) ! 0) deps1)"
      by (auto simp: wrapMethod_eq Let_def split: if_splits)
    then have "(Deps md', deps') = (Deps (fst (addDependency md1 (outs (methodType m) ! 0) deps1)),
                snd (addDependency md1 (outs (methodType m) ! 0) deps1))"
      by (metis modelData.select_convs(2) modelData.surjective modelData.update_convs(4))
    then show ?thesis
      by (simp only: addDependency_note) (simp add: wrappedTypes_def t p [symmetric])
  next
    case False
    then have t: "take (Suc 0) (outs (methodType m)) = []"
      by (simp add: NumOut_def)
    from assms l False have "Deps md' = Deps md1" and "deps' = deps1"
      by (auto simp: wrapMethod_eq Let_def split: if_splits)
    with p show ?thesis
      by (simp add: wrappedTypes_def t)
  qed
qed

lemma addMethodsLoop_note:
  assumes "addMethodsLoop reg mi ast es (md, deps) = Inr (md', deps')"
  shows "(Deps md', deps')
     = fold notePath
         (map (\<lambda>t. PkgPath (stripPtr t))
            (concat (map (\<lambda>e. if specificMethods (fst e) then [] else wrappedTypes (snd e)) es)))
         (Deps md, deps)"
  using assms
proof (induction es arbitrary: md deps)
  case Nil
  then show ?case by simp
next
  case (Cons e es)
  obtain n m where e: "e = (n, m)" by (cases e)
  from Cons.prems obtain md1 deps1 where
    a: "addMethod reg mi ast e (md, deps) = Inr (md1, deps1)"
    and l: "addMethodsLoop reg mi ast es (md1, deps1) = Inr (md', deps')"
    by (auto split: sum.splits)
  have "(Deps md1, deps1)
     = fold notePath (map (\<lambda>t. PkgPath (stripPtr t))
          (if specificMethods (fst e) then [] else wrappedTypes (snd e))) (Deps md, deps)"
  proof (cases "specificMethods n")
    case True
    with a e show ?thesis by (simp add: addMethod_def)
  next
    case False
    with a e have "wrapMethod mi n m (lookupParams reg mi ast n) (md, deps) = Inr (md1, deps1)"
      by (simp add: addMethod_def)
    from wrapMethod_note [OF this] False e show ?thesis by simp
  qed
  with Cons.IH [OF l] show ?case by simp
qed

lemma remdups_snoc:
  "remdups (ys @ [p]) = remdups (filter (\<lambda>q. q \<noteq> p) ys) @ [p]"
  by (induction ys) auto

lemma first_occurrences_Cons:
  "rev (remdups (rev (p # xs))) = p # rev (remdups (rev (filter (\<lambda>q. q \<noteq> p) xs)))"
  by (simp add: remdups_snoc rev_filter)

lemma fold_notePath:
  "fold notePath ps (ds, deps)
     = (ds @ rev (remdups (rev (filter (\<lambda>p. p \<noteq> '''' \<and> \<not> deps p) ps))),
        \<lambda>p. deps p \<or> p \<in> set ps)"
proof (induction ps arbitrary: ds deps)
  case Nil
  then show ?case by simp
next
  case (Cons p ps)
  have upd: "(\<lambda>q. (deps(p := True)) q \<or> q \<in> set ps) = (\<lambda>q. deps q \<or> q \<in> set (p # ps))"
    by auto
  show ?case
  proof (cases "p \<noteq> '''' \<and> \<not> deps p")
    case True
    then have f: "filter (\<lambda>q. q \<noteq> '''' \<and> \<not> (deps(p := True)) q) ps
        = filter (\<lambda>q. q \<noteq> p) (filter (\<lambda>q. q \<noteq> '''' \<and> \<not> deps q) ps)"
      by (auto intro: filter_cong)
    from True have "fold notePath (p # ps) (ds, deps) = fold notePath ps (ds @ [p], deps(p := True))"
      by (simp add: notePath_def)
    also have "\<dots> = ((ds @ [p]) @ rev (remdups (rev
          (filter (\<lambda>q. q \<noteq> p) (filter (\<lambda>q. q \<noteq> '''' \<and> \<not> deps q) ps)))),
        \<lambda>q. deps q \<or> q \<in> set (p # ps))"
      by (simp only: Cons.IH f upd)
    also have "\<dots> = (ds @ rev (remdups (rev (filter (\<lambda>q. q \<noteq> '''' \<and> \<not> deps q) (p # ps)))),
        \<lambda>q. deps q \<or> q \<in> set (p # ps))"
      using True by (simp add: first_occurrences_Cons del: rev.simps remdups.simps)
    finally show ?thesis .
  next
    case False
    then have f: "filter (\<lambda>q. q \<noteq> '''' \<and> \<not> (deps(p := True)) q) ps
        = filter (\<lambda>q. q \<noteq> '''' \<and> \<not> deps q) ps"
      by (auto intro: filter_cong)
    from False have "fold notePath (p # ps) (ds, deps) = fold notePath ps (ds, deps(p := True))"
      by (auto simp: notePath_def)
    also have "\<dots> = (ds @ rev (remdups (rev (filter (\<lambda>q. q \<noteq> '''' \<and> \<not> deps q) ps))),
        \<lambda>q. deps q \<or> q \<in> set (p # ps))"
      by (simp only: Cons.IH f upd)
    also have "\<dots> = (ds @ rev (remdups (rev (filter (\<lambda>q. q \<noteq> '''' \<and> \<not> deps q) (p # ps)))),
        \<lambda>q. deps q \<or> q \<in> set (p # ps))"
      using False by auto
    finally show ?thesis .
  qed
qed

lemma generated_Deps:
  assumes "generateModelPoolFile PoolPath ModelsPath reg mi fileName ast = Inr (f, d)"
  shows "Deps d = ModelsPath #
           rev (remdups (rev (filter (\<lambda>p. p \<noteq> '''' \<and> p \<noteq> PoolPath)
             (map (\<lambda>t. PkgPath (stripPtr t)) (typesSeen mi)))))"
proof -
  let ?st0 = "fold (addField mi) (fields_registryByName mi)
          (\<lparr>modelData.Name = name mi, Deps = [ModelsPath], Fields = [], Methods = []\<rparr>,
           (\<lambda>p. False)(PoolPath := True))"
  from assms obtain deps' where
    l: "addMethodsLoop reg mi ast (methods_registry mi) (fst ?st0, snd ?st0) = Inr (d, deps')"
    by (auto simp: generateModelPoolFile_eq split: sum.splits)
  have "(Deps d, deps') = fold notePath (map (\<lambda>t. PkgPath (stripPtr t)) (typesSeen mi))
          ([ModelsPath], (\<lambda>p. False)(PoolPath := True))"
    unfolding addMethodsLoop_note [OF l] fold_addField_note typesSeen_def
    by (simp add: comp_def)
  then have "Deps d = fst (fold notePath (map (\<lambda>t. PkgPath (stripPtr t)) (typesSeen mi))
          ([ModelsPath], (\<lambda>p. False)(PoolPath := True)))"
    by (metis fst_conv)
  moreover have "(\<lambda>p. p \<noteq> [] \<and> \<not> ((\<lambda>p. False)(PoolPath := True)) p)
      = (\<lambda>p. p \<noteq> [] \<and> p \<noteq> PoolPath)"
    by auto
  ultimately show ?thesis
    by (simp only: fold_notePath fst_conv append_Cons append_Nil)
qed

text \<open>
  C5, as the code has it. In the data of a generation that returns, the list of
  dependencies starts with \<open>ModelsPath\<close>. Take the package path, every layer of kind
  pointer stripped, of every type handed to \<open>addDependency\<close>: the type of each field, of
  each parameter after the receiver and of the first return value of each method that gets
  a wrapper. A path is in the list exactly when it is \<open>ModelsPath\<close> or one of these paths
  that is neither empty nor \<open>PoolPath\<close>: built-in types and the types of the generated
  package add no entry. The paths other than \<open>ModelsPath\<close> stand in the list once each, in
  the order in which they were first met.
\<close>

theorem C5_dependencies:
  assumes "generateModelPoolFile PoolPath ModelsPath reg mi fileName ast = Inr (f, d)"
  shows "(\<exists>rest. Deps d = ModelsPath # rest)
         \<and> set (Deps d) = insert ModelsPath
            {p \<in> set (map (\<lambda>t. PkgPath (stripPtr t)) (typesSeen mi)). p \<noteq> '''' \<and> p \<noteq> PoolPath}
         \<and> filter (\<lambda>p. p \<noteq> ModelsPath) (Deps d) =
             rev (remdups (rev (filter (\<lambda>p. p \<noteq> '''' \<and> p \<noteq> PoolPath \<and> p \<noteq> ModelsPath)
               (map (\<lambda>t. PkgPath (stripPtr t)) (typesSeen mi)))))
         \<and> (\<forall>t \<in> set (typesSeen mi).
               PkgPath (stripPtr t) \<noteq> '''' \<and> PkgPath (stripPtr t) \<noteq> PoolPath
                 \<and> PkgPath (stripPtr t) \<noteq> ModelsPath
               \<longrightarrow> count_list (Deps d) (PkgPath (stripPtr t)) = 1)"
proof -
  let ?paths = "map (\<lambda>t. PkgPath (stripPtr t)) (typesSeen mi)"
  let ?F = "rev (remdups (rev (filter (\<lambda>p. p \<noteq> '''' \<and> p \<noteq> PoolPath) ?paths)))"
  note D = generated_Deps [OF assms]
  have commute: "\<And>P xs. filter P (rev (remdups (rev xs))) = rev (remdups (rev (filter P xs)))"
    by (simp add: rev_filter remdups_filter)
  have 0: "\<exists>rest. Deps d = ModelsPath # rest"
    unfolding D by blast
  have 1: "set (Deps d) = insert ModelsPath {p \<in> set ?paths. p \<noteq> '''' \<and> p \<noteq> PoolPath}"
    unfolding D by auto
  have "filter (\<lambda>p. p \<noteq> ModelsPath) (Deps d) = filter (\<lambda>p. p \<noteq> ModelsPath) ?F"
    unfolding D by simp
  also have "\<dots> = rev (remdups (rev (filter (\<lambda>p. p \<noteq> ModelsPath)
                      (filter (\<lambda>p. p \<noteq> '''' \<and> p \<noteq> PoolPath) ?paths))))"
    by (rule commute)
  also have "filter (\<lambda>p. p \<noteq> ModelsPath) (filter (\<lambda>p. p \<noteq> '''' \<and> p \<noteq> PoolPath) ?paths)
      = filter (\<lambda>p. p \<noteq> '''' \<and> p \<noteq> PoolPath \<and> p \<noteq> ModelsPath) ?paths"
    by (auto intro: filter_cong)
  finally have 2: "filter (\<lambda>p. p \<noteq> ModelsPath) (Deps d) =
             rev (remdups (rev (filter (\<lambda>p. p \<noteq> '''' \<and> p \<noteq> PoolPath \<and> p \<noteq> ModelsPath) ?paths)))" .
  have 3: "count_list (Deps d) (PkgPath (stripPtr t)) = 1"
    if t: "t \<in> set (typesSeen mi)"
      and ne: "PkgPath (stripPtr t) \<noteq> '''' \<and> PkgPath (stripPtr t) \<noteq> PoolPath
                 \<and> PkgPath (stripPtr t) \<noteq> ModelsPath"
    for t
  proof -
    have dist: "distinct ?F" by simp
    from t ne have "PkgPath (stripPtr t) \<in> set ?F" by auto
    with count_list_distinct [OF dist, of "PkgPath (stripPtr t)"]
    have "count_list ?F (PkgPath (stripPtr t)) = 1" by simp
    with ne show ?thesis unfolding D by auto
  qed
  from 0 1 2 3 show ?thesis by blast
qed

theorem C5_dependencies_witness:
  "generateModelPoolFile exPoolPath exModelsPath exRegistry exUser ''out/user.go'' exAst
     = Inr (''out/user.go'', snd (projr (generateModelPoolFile exPoolPath exModelsPath
              exRegistry exUser ''out/user.go'' exAst)))
   \<and> map (\<lambda>t. PkgPath (stripPtr t)) (typesSeen exUser)
       = ['''', exPoolPath, exModelsPath, '''', ''time'', exModelsPath]
   \<and> hd (Deps (snd (projr (generateModelPoolFile exPoolPath
          exModelsPath exRegistry exUser ''out/user.go'' exAst)))) = exModelsPath
   \<and> filter (\<lambda>p. p \<noteq> exModelsPath) (Deps (snd (projr (generateModelPoolFile exPoolPath
          exModelsPath exRegistry exUser ''out/user.go'' exAst)))) = [''time'']
   \<and> count_list (Deps (snd (projr (generateModelPoolFile exPoolPath
          exModelsPath exRegistry exUser ''out/user.go'' exAst)))) ''time'' = 1
   \<and> set (Deps (snd (projr (generateModelPoolFile exPoolPath
          exModelsPath exRegistry exUser ''out/user.go'' exAst)))) = {exModelsPath, ''time''}
   \<and> generateModelPoolFile exPoolPath exModelsPath exRegistry exEvent ''out/event.go'' Map.empty
     = Inr (''out/event.go'', snd (projr (generateModelPoolFile exPoolPath exModelsPath
              exRegistry exEvent ''out/event.go'' Map.empty)))
   \<and> typesSeen exEvent = [NamedPtr exPoolPath ''pool.TimePtr'' (Named ''time'' ''time.Time'')]
   \<and> map (\<lambda>t. PkgPath (stripPtr t)) (typesSeen exEvent) = [''time'']
   \<and> Deps (snd (projr (generateModelPoolFile exPoolPath exModelsPath
              exRegistry exEvent ''out/event.go'' Map.empty))) = [exModelsPath, ''time'']"
proof -
  have paths: "map (\<lambda>t. PkgPath (stripPtr t)) (typesSeen exUser)
       = ['''', exPoolPath, exModelsPath, '''', ''time'', exModelsPath]"
    by (simp add: typesSeen_def wrappedTypes_def exUser_def exGreet_def specificMethods_def
        RecordCollection_def exModelsPath_def)
  have seen: "typesSeen exEvent = [NamedPtr exPoolPath ''pool.TimePtr'' (Named ''time'' ''time.Time'')]"
    by (simp add: typesSeen_def exEvent_def)
  from C5_dependencies [of exPoolPath exModelsPath exRegistry exUser
      "''out/user.go''" exAst "''out/user.go''"
      "snd (projr (generateModelPoolFile exPoolPath exModelsPath exRegistry exUser
         ''out/user.go'' exAst))"]
  have user: "hd (Deps (snd (projr (generateModelPoolFile exPoolPath
          exModelsPath exRegistry exUser ''out/user.go'' exAst)))) = exModelsPath
   \<and> filter (\<lambda>p. p \<noteq> exModelsPath) (Deps (snd (projr (generateModelPoolFile exPoolPath
          exModelsPath exRegistry exUser ''out/user.go'' exAst)))) = [''time'']
   \<and> count_list (Deps (snd (projr (generateModelPoolFile exPoolPath
          exModelsPath exRegistry exUser ''out/user.go'' exAst)))) ''time'' = 1
   \<and> set (Deps (snd (projr (generateModelPoolFile exPoolPath
          exModelsPath exRegistry exUser ''out/user.go'' exAst)))) = {exModelsPath, ''time''}"
    unfolding paths
    by (simp add: exUser_generated) (auto simp: exModelsPath_def exPoolPath_def)
  from C5_dependencies [of exPoolPath exModelsPath exRegistry exEvent
      "''out/event.go''" Map.empty "''out/event.go''"
      "snd (projr (generateModelPoolFile exPoolPath exModelsPath exRegistry exEvent
         ''out/event.go'' Map.empty))"]
  have event: "Deps (snd (projr (generateModelPoolFile exPoolPath exModelsPath
              exRegistry exEvent ''out/event.go'' Map.empty))) = [exModelsPath, ''time'']"
    by (simp add: exEvent_generated)
  from user event paths seen show ?thesis
    by (simp add: exUser_generated exEvent_generated)
qed

text \<open>
  The claim as it is written fails for a type of the generated package: the field
  \<open>Profile\<close> of \<open>User\<close> has a type whose package path is \<open>PoolPath\<close>, which is not empty,
  and that path is not in the list. (In the same list \<open>ModelsPath\<close> stands twice: the list
  starts with it while the map of the paths already imported starts without it.)
\<close>

theorem C5_counterexample:
  "generateModelPoolFile exPoolPath exModelsPath exRegistry exUser ''out/user.go'' exAst
   = Inr (''out/user.go'',
       \<lparr>modelData.Name = ''User'', Deps = [exModelsPath, exModelsPath, ''time''],
        Fields = [\<lparr>fieldData.Name = ''UserName'', fieldData.Type = ''string'', TypeIsRS = False\<rparr>,
                  \<lparr>fieldData.Name = ''Profile'', fieldData.Type = ''ProfileSet'', TypeIsRS = True\<rparr>,
                  \<lparr>fieldData.Name = ''Posts'', fieldData.Type = ''PostSet'', TypeIsRS = True\<rparr>],
        Methods = [\<lparr>methodData.Name = ''Greet'', methodData.Doc = ''// Greet greets'',
                    methodData.Params = ''name, when'',
                    ParamsWithType = ''name string, when *time.Time'',
                    Returns = ''UserSet'', ReturnsIsRS = True\<rparr>]\<rparr>)
   \<and> map (\<lambda>e. structField_Type (snd e)) (fields_registryByName exUser) ! 1
       = Named exPoolPath ''pool.ProfileSet''
   \<and> PkgPath (stripPtr (Named exPoolPath ''pool.ProfileSet'')) = exPoolPath
   \<and> exPoolPath \<noteq> ''''
   \<and> count_list [exModelsPath, exModelsPath, ''time''] exPoolPath = 0
   \<and> count_list [exModelsPath, exModelsPath, ''time''] exModelsPath = 2"
  by (simp add: exUser_generated) (simp add: exUser_def exPoolPath_def exModelsPath_def)

subsection \<open>Too few and too many parameter names\<close>

lemma paramRound_short:
  "length (MethodASTData.Params d) \<le> i \<Longrightarrow> \<exists>p. paramRound mi ft d i st = Inl p"
  by (cases st) (auto simp: paramRound_eq split: sum.splits)

lemma paramsLoop_short:
  "k \<in> set is \<Longrightarrow> length (MethodASTData.Params d) \<le> k \<Longrightarrow>
   \<exists>p. paramsLoop mi ft d is st = Inl p"
proof (induction "is" arbitrary: st)
  case Nil
  then show ?case by simp
next
  case (Cons i "is")
  show ?case
  proof (cases "paramRound mi ft d i st")
    case (Inl p)
    then show ?thesis by simp
  next
    case (Inr st')
    with paramRound_short [of d i mi ft st] have "\<not> length (MethodASTData.Params d) \<le> i"
      by auto
    with Cons.prems have "k \<in> set is" by auto
    from Cons.IH [OF this Cons.prems(2)] Inr show ?thesis by simp
  qed
qed

lemma wrapMethod_short:
  assumes "length (MethodASTData.Params d) < NumIn (methodType m) - 1"
  shows "\<exists>p. wrapMethod mi n m d st = Inl p"
proof -
  obtain md deps where st: "st = (md, deps)" by (cases st)
  from assms have "length (MethodASTData.Params d) \<in> set [0..<NumIn (methodType m) - 1]"
    by simp
  from paramsLoop_short [OF this order_refl]
  obtain p where "paramsLoop mi (methodType m) d [0..<NumIn (methodType m) - 1]
          (replicate (NumIn (methodType m) - 1) '''',
           replicate (NumIn (methodType m) - 1) '''', md, deps) = Inl p"
    by blast
  then show ?thesis
    unfolding st by (simp add: wrapMethod_eq)
qed

lemma addMethodsLoop_fails:
  "e \<in> set es \<Longrightarrow> (\<And>st. \<exists>p. addMethod reg mi ast e st = Inl p) \<Longrightarrow>
   \<exists>p. addMethodsLoop reg mi ast es st = Inl p"
proof (induction es arbitrary: st)
  case Nil
  then show ?case by simp
next
  case (Cons x es)
  show ?case
  proof (cases "addMethod reg mi ast x st")
    case (Inl p)
    then show ?thesis by simp
  next
    case (Inr st')
    with Cons.prems(2) [of st] have "x \<noteq> e" by auto
    with Cons.prems(1) have "e \<in> set es" by auto
    from Cons.IH [OF this Cons.prems(2)] Inr show ?thesis by simp
  qed
qed

lemma paramType_ok:
  assumes "wellFormedFunc ft" and "i < NumIn ft - 1"
  shows "\<exists>r. paramType mi ft i = Inr r"
proof (cases "IsVariadic ft \<and> i = NumIn ft - 2")
  case True
  with assms(2) have "i + 1 = length (ins ft) - 1" by (simp add: NumIn_def)
  moreover from assms(1) have "ins ft \<noteq> []" by (simp add: wellFormedFunc_def)
  ultimately have "ins ft ! (i + 1) = last (ins ft)"
    by (simp add: last_conv_nth)
  moreover from assms(1) True obtain e where "last (ins ft) = Slice e"
    by (auto simp: wellFormedFunc_def split: rtype.splits)
  ultimately show ?thesis
    using True by (simp add: paramType_def split: prod.splits)
next
  case False
  then show ?thesis by (auto simp: paramType_def)
qed

lemma paramsLoop_ok:
  assumes "wellFormedFunc ft"
  shows "(\<forall>i \<in> set is. i < NumIn ft - 1 \<and> i < length (MethodASTData.Params d)) \<Longrightarrow>
         \<exists>st'. paramsLoop mi ft d is st = Inr st'"
proof (induction "is" arbitrary: st)
  case Nil
  show ?case by (rule exI [of _ st]) simp
next
  case (Cons i "is")
  obtain ps pts md deps where st: "st = (ps, pts, md, deps)" using prod_cases4 by blast
  from Cons.prems have i: "i < NumIn ft - 1" "i < length (MethodASTData.Params d)" by auto
  from paramType_ok [OF assms i(1)] obtain r where "paramType mi ft i = Inr r" by blast
  with i(2) have "\<exists>st1. paramRound mi ft d i st = Inr st1"
    unfolding st by (simp add: paramRound_eq)
  then obtain st1 where "paramRound mi ft d i st = Inr st1" by blast
  moreover from Cons.prems have "\<forall>i \<in> set is. i < NumIn ft - 1 \<and> i < length (MethodASTData.Params d)"
    by simp
  from Cons.IH [OF this] obtain st' where "paramsLoop mi ft d is st1 = Inr st'" by blast
  ultimately show ?case by (intro exI [of _ st']) simp
qed

lemma wrapMethod_ok:
  assumes "wellFormedFunc (methodType m)"
    and "NumIn (methodType m) - 1 \<le> length (MethodASTData.Params d)"
  shows "\<exists>st'. wrapMethod mi n m d st = Inr st'"
proof -
  obtain md deps where st: "st = (md, deps)" by (cases st)
  from assms(2) have "\<forall>i \<in> set [0..<NumIn (methodType m) - 1].
      i < NumIn (methodType m) - 1 \<and> i < length (MethodASTData.Params d)"
    by auto
  from paramsLoop_ok [OF assms(1) this]
  obtain st1 where "paramsLoop mi (methodType m) d [0..<NumIn (methodType m) - 1]
          (replicate (NumIn (methodType m) - 1) '''',
           replicate (NumIn (methodType m) - 1) '''', md, deps) = Inr st1"
    by blast
  moreover from assms(1) have "NumIn (methodType m) \<noteq> 0"
    by (simp add: wellFormedFunc_def NumIn_def)
  ultimately show ?thesis
    unfolding st by (simp add: wrapMethod_eq Let_def del: split_paired_Ex)
qed

lemma addMethodsLoop_ok:
  "(\<And>e st. e \<in> set es \<Longrightarrow> \<exists>st'. addMethod reg mi ast e st = Inr st') \<Longrightarrow>
   \<exists>st'. addMethodsLoop reg mi ast es st = Inr st'"
proof (induction es arbitrary: st)
  case Nil
  show ?case by (rule exI [of _ st]) simp
next
  case (Cons x es)
  from Cons.prems [of x st] obtain st1 where x: "addMethod reg mi ast x st = Inr st1" by auto
  have "\<exists>st'. addMethodsLoop reg mi ast es st1 = Inr st'"
    by (rule Cons.IH) (rule Cons.prems, simp)
  then obtain st' where "addMethodsLoop reg mi ast es st1 = Inr st'" by blast
  with x show ?case by (intro exI [of _ st']) simp
qed

lemma paramsLoop_take:
  assumes "k \<le> length (MethodASTData.Params d)"
  shows "(\<forall>i \<in> set is. i < k) \<Longrightarrow>
         paramsLoop mi ft (d\<lparr>MethodASTData.Params := take k (MethodASTData.Params d)\<rparr>) is st
           = paramsLoop mi ft d is st"
proof (induction "is" arbitrary: st)
  case Nil
  then show ?case by simp
next
  case (Cons i "is")
  obtain ps pts md deps where st: "st = (ps, pts, md, deps)" using prod_cases4 by blast
  from Cons.prems have "i < k" by simp
  with assms have
    "paramRound mi ft (d\<lparr>MethodASTData.Params := take k (MethodASTData.Params d)\<rparr>) i st
       = paramRound mi ft d i st"
    unfolding st by (simp add: paramRound_eq split: sum.splits)
  moreover from Cons.prems have "\<forall>i \<in> set is. i < k" by simp
  note Cons.IH [OF this]
  ultimately show ?case by (simp split: sum.splits)
qed

lemma wrapMethod_take:
  assumes "NumIn (methodType m) - 1 \<le> length (MethodASTData.Params d)"
  shows "wrapMethod mi n m
           (d\<lparr>MethodASTData.Params := take (NumIn (methodType m) - 1) (MethodASTData.Params d)\<rparr>) st
         = wrapMethod mi n m d st"
proof -
  obtain md deps where st: "st = (md, deps)" by (cases st)
  have "\<forall>i \<in> set [0..<NumIn (methodType m) - 1]. i < NumIn (methodType m) - 1" by simp
  from paramsLoop_take [OF assms this] show ?thesis
    unfolding st by (simp add: wrapMethod_eq)
qed

lemma exUser_generated_long:
  "generateModelPoolFile exPoolPath exModelsPath exRegistry exUser ''out/user.go'' exAstLong
   = Inr (''out/user.go'',
       \<lparr>modelData.Name = ''User'', Deps = [exModelsPath, exModelsPath, ''time''],
        Fields = [\<lparr>fieldData.Name = ''UserName'', fieldData.Type = ''string'', TypeIsRS = False\<rparr>,
                  \<lparr>fieldData.Name = ''Profile'', fieldData.Type = ''ProfileSet'', TypeIsRS = True\<rparr>,
                  \<lparr>fieldData.Name = ''Posts'', fieldData.Type = ''PostSet'', TypeIsRS = True\<rparr>],
        Methods = [\<lparr>methodData.Name = ''Greet'', methodData.Doc = ''// Greet greets'',
                    methodData.Params = ''name, when'',
                    ParamsWithType = ''name string, when *time.Time'',
                    Returns = ''UserSet'', ReturnsIsRS = True\<rparr>]\<rparr>)"
  by (simp add: generator_eval exAstLong_def)

lemma exUser_generated_short:
  "generateModelPoolFile exPoolPath exModelsPath exRegistry exUser ''out/user.go'' exAstShort
   = Inl (IndexOutOfRange 1 1)"
  by (simp add: generator_eval exAstShort_def)

text \<open>
  C2, as the code has it. The generator does not compare the length of the list of names
  with the number of parameters; it reads \<open>dParams.Params[i]\<close> for every parameter after
  the receiver. If, for some method that gets a wrapper, the list is shorter than the
  number of these parameters, the generation of the model panics and no file is written for
  it. A longer list is no failure: when every such method has at least as many names as
  parameters (and a type as \<open>reflect\<close> builds it), the generation returns and writes the
  file; the names beyond the number of parameters are not looked at, the wrapper is the
  one that the list cut to that number gives.
\<close>

theorem C2_parameter_names:
  "((n, m) \<in> set (methods_registry mi) \<and> \<not> specificMethods n
      \<and> length (MethodASTData.Params (lookupParams reg mi ast n)) < NumIn (methodType m) - 1
      \<longrightarrow> (\<exists>p. generateModelPoolFile PoolPath ModelsPath reg mi fileName ast = Inl p))
   \<and> ((\<forall>e \<in> set (methods_registry mi). \<not> specificMethods (fst e) \<longrightarrow>
           wellFormedFunc (methodType (snd e))
           \<and> NumIn (methodType (snd e)) - 1
               \<le> length (MethodASTData.Params (lookupParams reg mi ast (fst e))))
      \<longrightarrow> (\<exists>d. generateModelPoolFile PoolPath ModelsPath reg mi fileName ast = Inr (fileName, d)))
   \<and> (NumIn (methodType m) - 1 \<le> length (MethodASTData.Params dp)
      \<longrightarrow> wrapMethod mi n m
            (dp\<lparr>MethodASTData.Params := take (NumIn (methodType m) - 1) (MethodASTData.Params dp)\<rparr>) st
          = wrapMethod mi n m dp st)"
proof (intro conjI impI)
  let ?st0 = "fold (addField mi) (fields_registryByName mi)
          (\<lparr>modelData.Name = name mi, Deps = [ModelsPath], Fields = [], Methods = []\<rparr>,
           (\<lambda>p. False)(PoolPath := True))"
  {
    assume a: "(n, m) \<in> set (methods_registry mi) \<and> \<not> specificMethods n
      \<and> length (MethodASTData.Params (lookupParams reg mi ast n)) < NumIn (methodType m) - 1"
    then have "\<And>st. \<exists>p. addMethod reg mi ast (n, m) st = Inl p"
      by (simp add: addMethod_def wrapMethod_short)
    with a have "\<exists>p. addMethodsLoop reg mi ast (methods_registry mi) ?st0 = Inl p"
      by (intro addMethodsLoop_fails [of "(n, m)"]) simp_all
    then show "\<exists>p. generateModelPoolFile PoolPath ModelsPath reg mi fileName ast = Inl p"
      by (auto simp: generateModelPoolFile_eq)
  }
  {
    assume a: "\<forall>e \<in> set (methods_registry mi). \<not> specificMethods (fst e) \<longrightarrow>
           wellFormedFunc (methodType (snd e))
           \<and> NumIn (methodType (snd e)) - 1
               \<le> length (MethodASTData.Params (lookupParams reg mi ast (fst e)))"
    have "\<exists>st'. addMethod reg mi ast e st = Inr st'" if e: "e \<in> set (methods_registry mi)" for e st
    proof (cases "specificMethods (fst e)")
      case True
      then show ?thesis
        by (cases e) (simp add: addMethod_def)
    next
      case False
      with a e have "wellFormedFunc (methodType (snd e))"
        and "NumIn (methodType (snd e)) - 1
               \<le> length (MethodASTData.Params (lookupParams reg mi ast (fst e)))"
        by auto
      from wrapMethod_ok [OF this] False show ?thesis
        by (cases e) (simp add: addMethod_def)
    qed
    from addMethodsLoop_ok [of "methods_registry mi" reg mi ast ?st0, OF this]
    obtain st' where "addMethodsLoop reg mi ast (methods_registry mi) ?st0 = Inr st'"
      by blast
    then show "\<exists>d. generateModelPoolFile PoolPath ModelsPath reg mi fileName ast = Inr (fileName, d)"
      by (simp add: generateModelPoolFile_eq)
  }
  {
    assume "NumIn (methodType m) - 1 \<le> length (MethodASTData.Params dp)"
    then show "wrapMethod mi n m
            (dp\<lparr>MethodASTData.Params := take (NumIn (methodType m) - 1) (MethodASTData.Params dp)\<rparr>) st
          = wrapMethod mi n m dp st"
      by (rule wrapMethod_take)
  }
qed

theorem C2_parameter_names_witness:
  "(''Greet'', exGreet) \<in> set (methods_registry exUser) \<and> \<not> specificMethods ''Greet''
   \<and> NumIn (methodType exGreet) - 1 = 2
   \<and> length (MethodASTData.Params (lookupParams exRegistry exUser exAstShort ''Greet'')) = 1
   \<and> generateModelPoolFile exPoolPath exModelsPath exRegistry exUser ''out/user.go'' exAstShort
       = Inl (IndexOutOfRange 1 1)
   \<and> wellFormedFunc (methodType exGreet)
   \<and> length (MethodASTData.Params (lookupParams exRegistry exUser exAstLong ''Greet'')) = 3
   \<and> generateModelPoolFile exPoolPath exModelsPath exRegistry exUser ''out/user.go'' exAstLong
       = Inr (''out/user.go'', snd (projr (generateModelPoolFile exPoolPath exModelsPath
               exRegistry exUser ''out/user.go'' exAstLong)))
   \<and> wrapMethod exUser ''Greet'' exGreet
        \<lparr>MethodASTData.Params = [''name'', ''when''], MethodASTData.Doc = ''''\<rparr>
        (\<lparr>modelData.Name = ''User'', Deps = [], Fields = [], Methods = []\<rparr>, \<lambda>p. False)
      = wrapMethod exUser ''Greet'' exGreet
        \<lparr>MethodASTData.Params = [''name'', ''when'', ''extra''], MethodASTData.Doc = ''''\<rparr>
        (\<lparr>modelData.Name = ''User'', Deps = [], Fields = [], Methods = []\<rparr>, \<lambda>p. False)"
proof -
  have facts: "(''Greet'', exGreet) \<in> set (methods_registry exUser)" "\<not> specificMethods ''Greet''"
    "NumIn (methodType exGreet) - 1 = 2" "wellFormedFunc (methodType exGreet)"
    "length (MethodASTData.Params (lookupParams exRegistry exUser exAstShort ''Greet'')) = 1"
    "length (MethodASTData.Params (lookupParams exRegistry exUser exAstLong ''Greet'')) = 3"
    by (simp_all add: exUser_def exGreet_def specificMethods_def NumIn_def wellFormedFunc_def
        lookupParams_def exAstShort_def exAstLong_def)
  have all: "\<forall>e \<in> set (methods_registry exUser). \<not> specificMethods (fst e) \<longrightarrow>
           wellFormedFunc (methodType (snd e))
           \<and> NumIn (methodType (snd e)) - 1
               \<le> length (MethodASTData.Params (lookupParams exRegistry exUser exAstLong (fst e)))"
    using facts by (simp add: exUser_def specificMethods_def)
  from C2_parameter_names [of "''Greet''" exGreet exUser exRegistry exAstShort
      exPoolPath exModelsPath "''out/user.go''"
      "\<lparr>MethodASTData.Params = [''name'', ''when'', ''extra''], MethodASTData.Doc = ''''\<rparr>"
      "(\<lparr>modelData.Name = ''User'', Deps = [], Fields = [], Methods = []\<rparr>, \<lambda>p. False)"]
    facts
  have short: "\<exists>p. generateModelPoolFile exPoolPath exModelsPath exRegistry exUser
      ''out/user.go'' exAstShort = Inl p"
    and cut: "wrapMethod exUser ''Greet'' exGreet
        \<lparr>MethodASTData.Params = [''name'', ''when''], MethodASTData.Doc = ''''\<rparr>
        (\<lparr>modelData.Name = ''User'', Deps = [], Fields = [], Methods = []\<rparr>, \<lambda>p. False)
      = wrapMethod exUser ''Greet'' exGreet
        \<lparr>MethodASTData.Params = [''name'', ''when'', ''extra''], MethodASTData.Doc = ''''\<rparr>
        (\<lparr>modelData.Name = ''User'', Deps = [], Fields = [], Methods = []\<rparr>, \<lambda>p. False)"
    by simp_all
  from C2_parameter_names [of "''Greet''" exGreet exUser exRegistry exAstLong
      exPoolPath exModelsPath "''out/user.go''"] all
  have long: "\<exists>d. generateModelPoolFile exPoolPath exModelsPath exRegistry exUser
      ''out/user.go'' exAstLong = Inr (''out/user.go'', d)"
    by blast
  from short long cut facts show ?thesis
    by (simp add: exUser_generated_short) (simp add: exUser_generated_long)
qed

text \<open>
  The claim as it is written fails for a list that is too long: \<open>Greet\<close> has two
  parameters after the receiver and three recovered names; the generation returns and
  writes the file, with the first two names.
\<close>

theorem C2_counterexample:
  "NumIn (methodType exGreet) - 1 = 2
   \<and> MethodASTData.Params (lookupParams exRegistry exUser exAstLong ''Greet'')
       = [''name'', ''when'', ''extra'']
   \<and> generateModelPoolFile exPoolPath exModelsPath exRegistry exUser ''out/user.go'' exAstLong
   = Inr (''out/user.go'',
       \<lparr>modelData.Name = ''User'', Deps = [exModelsPath, exModelsPath, ''time''],
        Fields = [\<lparr>fieldData.Name = ''UserName'', fieldData.Type = ''string'', TypeIsRS = False\<rparr>,
                  \<lparr>fieldData.Name = ''Profile'', fieldData.Type = ''ProfileSet'', TypeIsRS = True\<rparr>,
                  \<lparr>fieldData.Name = ''Posts'', fieldData.Type = ''PostSet'', TypeIsRS = True\<rparr>],
        Methods = [\<lparr>methodData.Name = ''Greet'', methodData.Doc = ''// Greet greets'',
                    methodData.Params = ''name, when'',
                    ParamsWithType = ''name string, when *time.Time'',
                    Returns = ''UserSet'', ReturnsIsRS = True\<rparr>]\<rparr>)"
  by (simp add: exUser_generated_long)
    (simp add: exGreet_def NumIn_def lookupParams_def exUser_def exAstLong_def)

section \<open>Properties of the bootstrap simulation\<close>

subsection \<open>Copying members into a name-keyed set\<close>














subsection \<open>The steps on a registry\<close>




















lemma nameKeyed_declarations: "nameKeyed (declarations r)"
  by (simp add: nameKeyed_def declarations_def list_all_iff)









end
